theory Spec2Isabelle
  imports Main "HOL-Library.Word"
begin

unbundle bit_operations_syntax

section \<open>simplefs: the on-disk data model\<close>

text \<open>
  A shallow embedding of \<^verbatim>\<open>simple.c\<close>. The kernel's fixed-width integers are words:
  \<^verbatim>\<open>uint64_t\<close>, \<^verbatim>\<open>loff_t\<close> and \<^verbatim>\<open>size_t\<close> are 64 bits wide, \<^verbatim>\<open>int\<close> is 32 bits wide,
  \<^verbatim>\<open>umode_t\<close> is 16 bits wide. A pointer into a block is an index into the list that
  models the block; a pointer that may be \<^verbatim>\<open>NULL\<close> is an option.
\<close>

type_synonym u64 = "64 word"
type_synonym s32 = "32 word"
type_synonym umode_t = "16 word"
type_synonym byte = "8 word"

text \<open>The error numbers the file returns (negated in C).\<close>

datatype errno = EPERM | EINTR | EIO | ENOMEM | EFAULT | EINVAL | ENOSPC | ENOTDIR

text \<open>
  Executions that do not return to the caller: \<^verbatim>\<open>BUG_ON\<close> fires, a \<^verbatim>\<open>NULL\<close> pointer is
  dereferenced, memory outside the block buffer is accessed (\<open>OutOfBlock\<close>), or a string
  operation runs past the end of the fixed-width name field of a directory record
  (\<open>FieldOverflow\<close>). The last two are undefined behaviour in C.
\<close>

datatype fault = BUG | NullDeref | OutOfBlock | FieldOverflow

datatype 'a outcome = Ret 'a | Crash fault

text \<open>
  The constants that \<^verbatim>\<open>super.h\<close> declares. The header is not part of the sources at
  hand, so they are parameters of every function that uses them.
\<close>

record config =
  SIMPLEFS_MAGIC :: u64
  SIMPLEFS_DEFAULT_BLOCK_SIZE :: u64
  SIMPLEFS_MAX_FILESYSTEM_OBJECTS_SUPPORTED :: nat
  SIMPLEFS_START_INO :: u64
  SIMPLEFS_RESERVED_INODES :: u64
  SIMPLEFS_ROOTDIR_INODE_NUMBER :: u64
  SIMPLEFS_FILENAME_MAXLEN :: nat

text \<open>
  Modelled from the spec: the fixed block indices of the on-disk layout (block 0 holds
  the superblock, block 1 the inode store); \<^verbatim>\<open>super.h\<close> declares them.
\<close>

definition SIMPLEFS_SUPERBLOCK_BLOCK_NUMBER :: u64 where
  "SIMPLEFS_SUPERBLOCK_BLOCK_NUMBER = 0"

definition SIMPLEFS_INODESTORE_BLOCK_NUMBER :: u64 where
  "SIMPLEFS_INODESTORE_BLOCK_NUMBER = 1"

text \<open>
  Modelled from the spec: the superblock holds magic, version, block size, object count
  and the free-block bitmask (bit set = free); the struct is declared in \<^verbatim>\<open>super.h\<close>.
  The source prints and compares the fields as 64-bit unsigned values.
\<close>

record simplefs_super_block =
  version :: u64
  magic :: u64
  block_size :: u64
  inodes_count :: u64
  free_blocks :: u64

text \<open>
  Modelled from the spec: an inode record holds the object number, the mode, the number
  of its single data block and one size slot, which is \<^verbatim>\<open>file_size\<close> for a regular file
  and \<^verbatim>\<open>dir_children_count\<close> for a directory; the struct is declared in \<^verbatim>\<open>super.h\<close>.
\<close>

record simplefs_inode =
  mode :: umode_t
  inode_no :: u64
  data_block_number :: u64
  file_size :: u64

abbreviation dir_children_count :: "simplefs_inode \<Rightarrow> u64" where
  "dir_children_count \<equiv> file_size"

text \<open>
  Modelled from the spec: a directory record is a fixed-width entry, the pair of a file
  name and an object number. The name field is \<^verbatim>\<open>SIMPLEFS_FILENAME_MAXLEN\<close> bytes wide and
  holds a C string; the model keeps the characters before the terminating zero byte. A
  string shorter than the field is a field with its terminator. A string of
  \<^verbatim>\<open>SIMPLEFS_FILENAME_MAXLEN\<close> characters or more stands for a field without a terminator,
  whose C string runs on into the bytes behind the field. The functions that copy into
  the field or compare with it say what happens at its end.
\<close>

record simplefs_dir_record =
  filename :: string
  d_inode_no :: u64

text \<open>The buffer-cache operations the source issues, in the order it issues them.\<close>

datatype io_event = Dirty u64 | Sync u64

text \<open>
  The filesystem state. Block 0 is the superblock record and block 1 the inode store, an
  array of inode records, both as the source casts them. Every other block is read
  through one of two views, as the source casts \<^verbatim>\<open>bh->b_data\<close>: an array of directory
  records or an array of bytes. \<open>readable b\<close> says whether \<^verbatim>\<open>sb_bread\<close> returns a buffer
  for block \<open>b\<close>. \<open>io_log\<close> records \<^verbatim>\<open>mark_buffer_dirty\<close> and \<^verbatim>\<open>sync_dirty_buffer\<close> calls.
\<close>

record fs_state =
  sb :: simplefs_super_block
  inode_store :: "simplefs_inode list"
  dir_data :: "u64 \<Rightarrow> simplefs_dir_record list"
  file_data :: "u64 \<Rightarrow> byte list"
  readable :: "u64 \<Rightarrow> bool"
  io_log :: "io_event list"

text \<open>
  The kernel's own inode, as far as this file fills it: the inode number and the private
  pointer to the simplefs inode (\<open>None\<close> is \<^verbatim>\<open>NULL\<close>).
\<close>

record vfs_inode =
  i_ino :: u64
  i_private :: "simplefs_inode option"

section \<open>Superblock and inode store\<close>

text \<open>
  The model is sequential: a mutex is never contended, so \<^verbatim>\<open>mutex_lock_interruptible\<close>
  takes the lock at once and returns 0; the branches for an interrupted wait are not
  reachable and are left out.
\<close>

text \<open>\<^verbatim>\<open>simplefs_sb_sync\<close>: re-read block 0, mark it dirty, write it back.\<close>

definition simplefs_sb_sync :: "fs_state \<Rightarrow> fs_state outcome" where
  "simplefs_sb_sync s =
     (if readable s SIMPLEFS_SUPERBLOCK_BLOCK_NUMBER
      then Ret (s\<lparr>io_log := io_log s @
                  [Dirty SIMPLEFS_SUPERBLOCK_BLOCK_NUMBER, Sync SIMPLEFS_SUPERBLOCK_BLOCK_NUMBER]\<rparr>)
      else Crash BUG)"

text \<open>
  \<^verbatim>\<open>simplefs_inode_search\<close>: the pointer \<^verbatim>\<open>start\<close> walks the block while the record it
  points at has another number and \<^verbatim>\<open>count < inodes_count\<close>; afterwards the record it
  stopped at is compared once more. The result is the index of the record returned.
\<close>

function inode_search_loop :: "simplefs_inode list \<Rightarrow> u64 \<Rightarrow> nat \<Rightarrow> nat \<Rightarrow> nat outcome" where
  "inode_search_loop start no n count =
     (if length start \<le> count then Crash OutOfBlock
      else if inode_no (start ! count) \<noteq> no \<and> count < n
        then inode_search_loop start no n (count + 1)
        else Ret count)"
  by pat_completeness auto
termination
  by (relation "measure (\<lambda>(start, no, n, count). n - count)") auto

declare inode_search_loop.simps [simp del]

definition simplefs_inode_search ::
  "fs_state \<Rightarrow> simplefs_inode list \<Rightarrow> simplefs_inode \<Rightarrow> nat option outcome" where
  "simplefs_inode_search s start search =
     (case inode_search_loop start (inode_no search) (unat (inodes_count (sb s))) 0 of
        Crash f \<Rightarrow> Crash f
      | Ret i \<Rightarrow>
          (if inode_no (start ! i) = inode_no search then Ret (Some i) else Ret None))"

text \<open>
  \<^verbatim>\<open>simplefs_get_inode\<close>: a \<^verbatim>\<open>for\<close> loop over the first \<^verbatim>\<open>inodes_count\<close> records; the
  result is a copy of the first record with the number asked for, or \<^verbatim>\<open>NULL\<close>.
\<close>

function get_inode_loop ::
  "simplefs_inode list \<Rightarrow> u64 \<Rightarrow> nat \<Rightarrow> nat \<Rightarrow> simplefs_inode option outcome" where
  "get_inode_loop store no n i =
     (if i < n then
        (if length store \<le> i then Crash OutOfBlock
         else if inode_no (store ! i) = no then Ret (Some (store ! i))
         else get_inode_loop store no n (i + 1))
      else Ret None)"
  by pat_completeness auto
termination
  by (relation "measure (\<lambda>(store, no, n, i). n - i)") auto

declare get_inode_loop.simps [simp del]

definition simplefs_get_inode :: "fs_state \<Rightarrow> u64 \<Rightarrow> simplefs_inode option outcome" where
  "simplefs_get_inode s no =
     (if readable s SIMPLEFS_INODESTORE_BLOCK_NUMBER
      then get_inode_loop (inode_store s) no (unat (inodes_count (sb s))) 0
      else Crash BUG)"

text \<open>
  \<^verbatim>\<open>simplefs_inode_save\<close>: find the record with \<^verbatim>\<open>simplefs_inode_search\<close>, overwrite it and
  write the block back; \<^verbatim>\<open>-EIO\<close> when the search returns \<^verbatim>\<open>NULL\<close>.
\<close>

definition simplefs_inode_save ::
  "fs_state \<Rightarrow> simplefs_inode \<Rightarrow> ((errno + unit) \<times> fs_state) outcome" where
  "simplefs_inode_save s sfs_inode =
     (if readable s SIMPLEFS_INODESTORE_BLOCK_NUMBER then
        (case simplefs_inode_search s (inode_store s) sfs_inode of
           Crash f \<Rightarrow> Crash f
         | Ret (Some i) \<Rightarrow>
             Ret (Inr (),
                  s\<lparr>inode_store := (inode_store s)[i := sfs_inode],
                    io_log := io_log s @
                      [Dirty SIMPLEFS_INODESTORE_BLOCK_NUMBER, Sync SIMPLEFS_INODESTORE_BLOCK_NUMBER]\<rparr>)
         | Ret None \<Rightarrow> Ret (Inl EIO, s))
      else Crash BUG)"

text \<open>
  \<^verbatim>\<open>simplefs_inode_add\<close>: copy the record to slot \<^verbatim>\<open>inodes_count\<close> of the inode store,
  increment \<^verbatim>\<open>inodes_count\<close>, mark the inode block dirty and sync the superblock.
\<close>

definition simplefs_inode_add :: "fs_state \<Rightarrow> simplefs_inode \<Rightarrow> fs_state outcome" where
  "simplefs_inode_add s inode =
     (if readable s SIMPLEFS_INODESTORE_BLOCK_NUMBER then
        (let n = unat (inodes_count (sb s)) in
         if length (inode_store s) \<le> n then Crash OutOfBlock
         else simplefs_sb_sync
                (s\<lparr>inode_store := (inode_store s)[n := inode],
                   sb := (sb s)\<lparr>inodes_count := inodes_count (sb s) + 1\<rparr>,
                   io_log := io_log s @ [Dirty SIMPLEFS_INODESTORE_BLOCK_NUMBER]\<rparr>))
      else Crash BUG)"

text \<open>
  The C expression \<^verbatim>\<open>1 << i\<close> has type \<^verbatim>\<open>int\<close>. For \<open>i < 31\<close> its value is \<open>2 ^ i\<close>; for
  \<open>i = 31\<close> the compiler of the kernel yields \<^verbatim>\<open>INT_MIN\<close>; for larger \<open>i\<close> the model follows
  the shift instruction, which takes the count modulo 32. Combined with the 64-bit
  \<^verbatim>\<open>free_blocks\<close> the \<^verbatim>\<open>int\<close> is sign-extended.
\<close>

definition int_shl1 :: "nat \<Rightarrow> s32" where
  "int_shl1 i = push_bit (i mod 32) 1"

definition int_to_u64 :: "s32 \<Rightarrow> u64" where
  "int_to_u64 x = scast x"

text \<open>The \<^verbatim>\<open>for\<close> loop of \<^verbatim>\<open>simplefs_sb_get_a_freeblock\<close>; the result is \<^verbatim>\<open>i\<close> after the loop.\<close>

function freeblock_loop :: "nat \<Rightarrow> u64 \<Rightarrow> nat \<Rightarrow> nat" where
  "freeblock_loop maxobj fb i =
     (if i < maxobj then
        (if fb AND int_to_u64 (int_shl1 i) \<noteq> 0 then i
         else freeblock_loop maxobj fb (i + 1))
      else i)"
  by pat_completeness auto
termination
  by (relation "measure (\<lambda>(maxobj, fb, i). maxobj - i)") auto

declare freeblock_loop.simps [simp del]

definition simplefs_sb_get_a_freeblock ::
  "config \<Rightarrow> fs_state \<Rightarrow> ((errno + u64) \<times> fs_state) outcome" where
  "simplefs_sb_get_a_freeblock cfg s =
     (let i = freeblock_loop (SIMPLEFS_MAX_FILESYSTEM_OBJECTS_SUPPORTED cfg) (free_blocks (sb s)) 3 in
      if i = SIMPLEFS_MAX_FILESYSTEM_OBJECTS_SUPPORTED cfg then Ret (Inl ENOSPC, s)
      else
        (case simplefs_sb_sync
                (s\<lparr>sb := (sb s)\<lparr>free_blocks :=
                     free_blocks (sb s) AND int_to_u64 (NOT (int_shl1 i))\<rparr>\<rparr>) of
           Crash f \<Rightarrow> Crash f
         | Ret s' \<Rightarrow> Ret (Inr (of_nat i), s')))"

definition simplefs_sb_get_objects_count :: "fs_state \<Rightarrow> u64" where
  "simplefs_sb_get_objects_count s = inodes_count (sb s)"

section \<open>Object operations\<close>

text \<open>The kernel's file-type macros on a mode (octal 0170000, 0040000, 0100000).\<close>

definition S_IFMT :: umode_t where "S_IFMT = 0xF000"
definition S_IFDIR :: umode_t where "S_IFDIR = 0x4000"
definition S_IFREG :: umode_t where "S_IFREG = 0x8000"

definition S_ISDIR :: "umode_t \<Rightarrow> bool" where
  "S_ISDIR m = (m AND S_IFMT = S_IFDIR)"

definition S_ISREG :: "umode_t \<Rightarrow> bool" where
  "S_ISREG m = (m AND S_IFMT = S_IFREG)"

text \<open>
  The part of \<^verbatim>\<open>simplefs_create_fs_object\<close> that links the child into its parent: read the
  parent's data block, write the record at slot \<^verbatim>\<open>dir_children_count\<close>, sync the block.
  \<^verbatim>\<open>strcpy\<close> copies the name and its terminator with no check of the length: a name of
  \<^verbatim>\<open>SIMPLEFS_FILENAME_MAXLEN\<close> characters or more does not fit the field.
\<close>

definition create_link_child ::
  "config \<Rightarrow> fs_state \<Rightarrow> simplefs_inode \<Rightarrow> u64 \<Rightarrow> string \<Rightarrow> fs_state outcome" where
  "create_link_child cfg s parent_dir_inode no name =
     (let b = data_block_number parent_dir_inode;
          k = unat (dir_children_count parent_dir_inode) in
      if readable s b then
        (if length (dir_data s b) \<le> k then Crash OutOfBlock
         else if SIMPLEFS_FILENAME_MAXLEN cfg \<le> length name then Crash FieldOverflow
         else Ret (s\<lparr>dir_data := (dir_data s)
                       (b := (dir_data s b)[k := \<lparr>filename = name, d_inode_no = no\<rparr>]),
                     io_log := io_log s @ [Dirty b, Sync b]\<rparr>))
      else Crash BUG)"

text \<open>
  \<^verbatim>\<open>simplefs_create_fs_object\<close>. \<open>new_inode_ok\<close> says whether the kernel's \<^verbatim>\<open>new_inode\<close>
  returns an inode. The result is the return value (the new kernel inode stands for 0),
  the parent's in-memory simplefs inode and the state.
\<close>

definition simplefs_create_fs_object ::
  "config \<Rightarrow> bool \<Rightarrow> fs_state \<Rightarrow> simplefs_inode \<Rightarrow> string \<Rightarrow> umode_t \<Rightarrow>
     ((errno + vfs_inode) \<times> simplefs_inode \<times> fs_state) outcome" where
  "simplefs_create_fs_object cfg new_inode_ok s parent_dir_inode name md =
     (let count = simplefs_sb_get_objects_count s in
      if SIMPLEFS_MAX_FILESYSTEM_OBJECTS_SUPPORTED cfg \<le> unat count
        then Ret (Inl ENOSPC, parent_dir_inode, s)
      else if \<not> S_ISDIR md \<and> \<not> S_ISREG md
        then Ret (Inl EINVAL, parent_dir_inode, s)
      else if \<not> new_inode_ok
        then Ret (Inl ENOMEM, parent_dir_inode, s)
      else
        (let no = count + SIMPLEFS_START_INO cfg - SIMPLEFS_RESERVED_INODES cfg + 1 in
         case simplefs_sb_get_a_freeblock cfg s of
           Crash f \<Rightarrow> Crash f
         | Ret (Inl e, s1) \<Rightarrow> Ret (Inl e, parent_dir_inode, s1)
         | Ret (Inr b, s1) \<Rightarrow>
             (let sfs_inode =
                    \<lparr>mode = md, inode_no = no, data_block_number = b, file_size = 0\<rparr> in
              case simplefs_inode_add s1 sfs_inode of
                Crash f \<Rightarrow> Crash f
              | Ret s2 \<Rightarrow>
                  (case create_link_child cfg s2 parent_dir_inode no name of
                     Crash f \<Rightarrow> Crash f
                   | Ret s3 \<Rightarrow>
                       (let parent' = parent_dir_inode
                              \<lparr>file_size := dir_children_count parent_dir_inode + 1\<rparr> in
                        case simplefs_inode_save s3 parent' of
                          Crash f \<Rightarrow> Crash f
                        | Ret (Inl e, s4) \<Rightarrow> Ret (Inl e, parent', s4)
                        | Ret (Inr u, s4) \<Rightarrow>
                            Ret (Inr \<lparr>i_ino = no, i_private = Some sfs_inode\<rparr>,
                                 parent', s4))))))"

text \<open>
  The loop of \<^verbatim>\<open>simplefs_lookup\<close> over the first \<^verbatim>\<open>dir_children_count\<close> records of the
  parent's data block; the result is the object number of the first record with the name.
  \<^verbatim>\<open>strcmp\<close> stops at the first character that differs or at a terminator; it runs past
  the name field when the field has no terminator and the name agrees with all
  \<open>maxlen\<close> characters of it.
\<close>

function lookup_loop ::
  "nat \<Rightarrow> simplefs_dir_record list \<Rightarrow> string \<Rightarrow> nat \<Rightarrow> nat \<Rightarrow> u64 option outcome" where
  "lookup_loop maxlen record name n i =
     (if i < n then
        (if length record \<le> i then Crash OutOfBlock
         else if maxlen \<le> length (filename (record ! i))
                 \<and> take maxlen (filename (record ! i)) = take maxlen name
           then Crash FieldOverflow
         else if filename (record ! i) = name then Ret (Some (d_inode_no (record ! i)))
         else lookup_loop maxlen record name n (i + 1))
      else Ret None)"
  by pat_completeness auto
termination
  by (relation "measure (\<lambda>(maxlen, record, name, n, i). n - i)") auto

declare lookup_loop.simps [simp del]

text \<open>
  \<^verbatim>\<open>simplefs_lookup\<close>: the result is the kernel inode attached to the dentry, or \<open>None\<close> when
  no record has the name. The source dereferences the results of \<^verbatim>\<open>new_inode\<close> and of
  \<^verbatim>\<open>simplefs_get_inode\<close> without a check.
\<close>

definition simplefs_lookup ::
  "config \<Rightarrow> bool \<Rightarrow> fs_state \<Rightarrow> simplefs_inode \<Rightarrow> string \<Rightarrow> vfs_inode option outcome" where
  "simplefs_lookup cfg new_inode_ok s parent name =
     (if readable s (data_block_number parent) then
        (case lookup_loop (SIMPLEFS_FILENAME_MAXLEN cfg)
                (dir_data s (data_block_number parent)) name
                (unat (dir_children_count parent)) 0 of
           Crash f \<Rightarrow> Crash f
         | Ret None \<Rightarrow> Ret None
         | Ret (Some no) \<Rightarrow>
             (case simplefs_get_inode s no of
                Crash f \<Rightarrow> Crash f
              | Ret sfs_inode \<Rightarrow>
                  (if \<not> new_inode_ok then Crash NullDeref
                   else case sfs_inode of
                          None \<Rightarrow> Crash NullDeref
                        | Some si \<Rightarrow> Ret (Some \<lparr>i_ino = no, i_private = Some si\<rparr>))))
      else Crash BUG)"

text \<open>
  \<^verbatim>\<open>simplefs_read\<close>. The arguments are the file's in-memory inode, the length asked for
  and the file position; \<open>copy_ok\<close> says whether \<^verbatim>\<open>copy_to_user\<close> succeeds. The result is
  the return value (the bytes copied to the caller stand for their count), the new file
  position and the state. \<^verbatim>\<open>nbytes\<close> is an \<^verbatim>\<open>int\<close>; a negative count is beyond every user
  address range, so \<^verbatim>\<open>copy_to_user\<close> refuses it.
\<close>

definition simplefs_read ::
  "bool \<Rightarrow> fs_state \<Rightarrow> simplefs_inode \<Rightarrow> u64 \<Rightarrow> u64 \<Rightarrow>
     ((errno + byte list) \<times> u64 \<times> fs_state) outcome" where
  "simplefs_read copy_ok s inode len ppos =
     (if file_size inode \<le> ppos then Ret (Inr [], ppos, s)
      else if \<not> readable s (data_block_number inode) then Ret (Inr [], ppos, s)
      else
        (let buffer = file_data s (data_block_number inode);
             nbytes = (ucast (min (file_size inode) len) :: s32) in
         if sint nbytes < 0 then Ret (Inl EFAULT, ppos, s)
         else if \<not> copy_ok then Ret (Inl EFAULT, ppos, s)
         else if length buffer < nat (sint nbytes) then Crash OutOfBlock
         else Ret (Inr (take (nat (sint nbytes)) buffer), ppos + int_to_u64 nbytes, s)))"

text \<open>
  \<^verbatim>\<open>simplefs_write\<close>. \<open>buf\<close> holds the \<^verbatim>\<open>len\<close> bytes of the caller; \<open>copy_ok\<close> says whether
  \<^verbatim>\<open>copy_from_user\<close> succeeds (it is taken to copy all bytes or none). The result is the
  return value, the new file position, the file's in-memory inode and the state.
\<close>

definition simplefs_write ::
  "bool \<Rightarrow> fs_state \<Rightarrow> simplefs_inode \<Rightarrow> byte list \<Rightarrow> u64 \<Rightarrow>
     ((errno + u64) \<times> u64 \<times> simplefs_inode \<times> fs_state) outcome" where
  "simplefs_write copy_ok s sfs_inode buf ppos =
     (let len = (of_nat (length buf) :: u64);
          b = data_block_number sfs_inode in
      if \<not> readable s b then Ret (Inr 0, ppos, sfs_inode, s)
      else if \<not> copy_ok then Ret (Inl EFAULT, ppos, sfs_inode, s)
      else if buf \<noteq> [] \<and> (sint ppos < 0 \<or> length (file_data s b) < nat (sint ppos) + length buf)
        then Crash OutOfBlock
      else
        (let buffer = file_data s b;
             off = nat (sint ppos);
             s1 = s\<lparr>file_data := (file_data s)
                       (b := take off buffer @ buf @ drop (off + length buf) buffer),
                    io_log := io_log s @ [Dirty b, Sync b]\<rparr>;
             ppos' = ppos + len;
             inode' = sfs_inode\<lparr>file_size := ppos'\<rparr> in
         case simplefs_inode_save s1 inode' of
           Crash f \<Rightarrow> Crash f
         | Ret (Inl e, s2) \<Rightarrow> Ret (Inl e, ppos', inode', s2)
         | Ret (Inr u, s2) \<Rightarrow> Ret (Inr len, ppos', inode', s2)))"

text \<open>
  \<^verbatim>\<open>simplefs_fill_super\<close>: \<^verbatim>\<open>ret\<close> starts as \<^verbatim>\<open>-EPERM\<close> and both checks jump to the common
  exit. \<open>d_make_root_ok\<close> says whether the kernel allocates the root dentry. On success
  the result is the root inode.
\<close>

definition simplefs_fill_super ::
  "config \<Rightarrow> bool \<Rightarrow> bool \<Rightarrow> fs_state \<Rightarrow> (errno + vfs_inode) outcome" where
  "simplefs_fill_super cfg new_inode_ok d_make_root_ok s =
     (if \<not> readable s SIMPLEFS_SUPERBLOCK_BLOCK_NUMBER then Crash BUG
      else if magic (sb s) \<noteq> SIMPLEFS_MAGIC cfg then Ret (Inl EPERM)
      else if block_size (sb s) \<noteq> SIMPLEFS_DEFAULT_BLOCK_SIZE cfg then Ret (Inl EPERM)
      else if \<not> new_inode_ok then Crash NullDeref
      else
        (case simplefs_get_inode s (SIMPLEFS_ROOTDIR_INODE_NUMBER cfg) of
           Crash f \<Rightarrow> Crash f
         | Ret r \<Rightarrow>
             (if d_make_root_ok
              then Ret (Inr \<lparr>i_ino = SIMPLEFS_ROOTDIR_INODE_NUMBER cfg, i_private = r\<rparr>)
              else Ret (Inl ENOMEM))))"

section \<open>Concrete states for evaluation\<close>

text \<open>
  A configuration with a 64-object maximum (one object per bit of the bitmask) and a
  255-byte name field, and a
  freshly formatted image: the root directory (object 1, data block 2) with one child,
  a regular file (object 2, data block 3) of five bytes.
\<close>

definition example_config :: config where
  "example_config =
     \<lparr>SIMPLEFS_MAGIC = 0x10032013, SIMPLEFS_DEFAULT_BLOCK_SIZE = 4096,
      SIMPLEFS_MAX_FILESYSTEM_OBJECTS_SUPPORTED = 64, SIMPLEFS_START_INO = 10,
      SIMPLEFS_RESERVED_INODES = 3, SIMPLEFS_ROOTDIR_INODE_NUMBER = 1,
      SIMPLEFS_FILENAME_MAXLEN = 255\<rparr>"

definition root_inode :: simplefs_inode where
  "root_inode = \<lparr>mode = 0x4000, inode_no = 1, data_block_number = 2, file_size = 1\<rparr>"

definition file_inode :: simplefs_inode where
  "file_inode = \<lparr>mode = 0x8000, inode_no = 2, data_block_number = 3, file_size = 5\<rparr>"

definition blank_inode :: simplefs_inode where
  "blank_inode = \<lparr>mode = 0, inode_no = 0, data_block_number = 0, file_size = 0\<rparr>"

definition blank_record :: simplefs_dir_record where
  "blank_record = \<lparr>filename = [], d_inode_no = 0\<rparr>"

definition example_fs :: fs_state where
  "example_fs =
     \<lparr>sb = \<lparr>version = 1, magic = 0x10032013, block_size = 4096, inodes_count = 2,
             free_blocks = 0xFFFFFFFFFFFFFFF7\<rparr>,
      inode_store = [root_inode, file_inode, blank_inode, blank_inode],
      dir_data = (\<lambda>b. [\<lparr>filename = ''vanakkam'', d_inode_no = 2\<rparr>, blank_record, blank_record]),
      file_data = (\<lambda>b. [104, 101, 108, 108, 111, 0, 0, 0]),
      readable = (\<lambda>b. True),
      io_log = []\<rparr>"

text \<open>The same image with an object count of 1: slot 1 of the inode store is not live.\<close>

definition stale_fs :: fs_state where
  "stale_fs = example_fs\<lparr>sb := (sb example_fs)\<lparr>inodes_count := 1\<rparr>\<rparr>"

text \<open>The same image after blocks 3 to 30 have been allocated: bits 31 to 63 are free.\<close>

definition half_used_fs :: fs_state where
  "half_used_fs = example_fs\<lparr>sb := (sb example_fs)\<lparr>free_blocks := 0xFFFFFFFF80000000\<rparr>\<rparr>"

text \<open>The same image with a wrong magic number, and with a wrong block size.\<close>

definition bad_magic_fs :: fs_state where
  "bad_magic_fs = example_fs\<lparr>sb := (sb example_fs)\<lparr>magic := 0\<rparr>\<rparr>"

definition bad_block_size_fs :: fs_state where
  "bad_block_size_fs = example_fs\<lparr>sb := (sb example_fs)\<lparr>block_size := 512\<rparr>\<rparr>"

text \<open>
  The image after a regular file named \<open>new\<close> with mode 0100644 has been created in the
  root directory, and the image with as many objects as the configuration supports.
\<close>

definition new_file_inode :: simplefs_inode where
  "new_file_inode = \<lparr>mode = 0x81A4, inode_no = 10, data_block_number = 4, file_size = 0\<rparr>"

definition created_fs :: fs_state where
  "created_fs =
     example_fs
       \<lparr>sb := (sb example_fs)\<lparr>inodes_count := 3, free_blocks := 0xFFFFFFFFFFFFFFE7\<rparr>,
        inode_store := [root_inode\<lparr>file_size := 2\<rparr>, file_inode, new_file_inode, blank_inode],
        dir_data := (dir_data example_fs)
          (2 := [\<lparr>filename = ''vanakkam'', d_inode_no = 2\<rparr>,
                 \<lparr>filename = ''new'', d_inode_no = 10\<rparr>, blank_record]),
        io_log := [Dirty 0, Sync 0, Dirty 1, Dirty 0, Sync 0, Dirty 2, Sync 2, Dirty 1, Sync 1]\<rparr>"

definition full_fs :: fs_state where
  "full_fs = example_fs\<lparr>sb := (sb example_fs)\<lparr>inodes_count := 64\<rparr>\<rparr>"


section \<open>What the called functions return\<close>

lemma int_to_u64_nonneg: "0 \<le> sint (x::s32) \<Longrightarrow> int_to_u64 x = of_nat (nat (sint x))"
  by (simp add: int_to_u64_def)

lemma inode_search_loop_bound:
  "inode_search_loop start no n count = Ret i \<Longrightarrow> i < length start"
proof (induction start no n count rule: inode_search_loop.induct)
  case (1 start no n count)
  then show ?case
    by (subst (asm) (2) inode_search_loop.simps) (auto split: if_splits)
qed

lemma sb_sync_Ret:
  "simplefs_sb_sync s = Ret s' \<Longrightarrow>
     s' = s\<lparr>io_log := io_log s @
            [Dirty SIMPLEFS_SUPERBLOCK_BLOCK_NUMBER, Sync SIMPLEFS_SUPERBLOCK_BLOCK_NUMBER]\<rparr>"
  by (simp add: simplefs_sb_sync_def split: if_splits)

lemma inode_save_Inl:
  "simplefs_inode_save s x = Ret (Inl e, s') \<Longrightarrow> e = EIO \<and> s' = s"
  by (auto simp: simplefs_inode_save_def split: if_splits outcome.splits option.splits)

lemma inode_save_Inr:
  assumes "simplefs_inode_save s x = Ret (Inr u, s')"
  shows "\<exists>j. j < length (inode_store s) \<and> inode_no (inode_store s ! j) = inode_no x
           \<and> s' = s\<lparr>inode_store := (inode_store s)[j := x],
                    io_log := io_log s @
                      [Dirty SIMPLEFS_INODESTORE_BLOCK_NUMBER, Sync SIMPLEFS_INODESTORE_BLOCK_NUMBER]\<rparr>"
  using assms
  by (auto simp: simplefs_inode_save_def simplefs_inode_search_def
      split: if_splits outcome.splits option.splits dest: inode_search_loop_bound)

lemma write_Inr:
  assumes "simplefs_write copy_ok s x buf ppos = Ret (Inr n, ppos', x', s')"
    and "readable s (data_block_number x)"
  shows "x' = x\<lparr>file_size := ppos + of_nat (length buf)\<rparr> \<and> n = of_nat (length buf)
       \<and> ppos' = ppos + of_nat (length buf) \<and> readable s' = readable s
       \<and> (\<exists>i. i < length (inode_store s') \<and> inode_store s' ! i = x')"
  using assms
  by (auto simp: simplefs_write_def Let_def
      split: if_splits outcome.splits sum.splits prod.splits dest!: inode_save_Inr)

lemma fresh_nth:
  assumes "x \<notin> set (map f (take k xs))" and "i < k" and "i < length xs"
  shows "f (xs ! i) \<noteq> x"
proof
  assume "f (xs ! i) = x"
  moreover from assms(2,3) have "take k xs ! i = xs ! i" and "i < length (take k xs)" by simp_all
  ultimately have "x \<in> set (map f (take k xs))"
    by (metis length_map nth_map nth_mem)
  with assms(1) show False by simp
qed

lemma unat_succ:
  assumes "unat (c :: u64) < m" and "m < 2 ^ 64"
  shows "unat (c + 1) = unat c + 1"
proof -
  from assms have "unat c + unat (1 :: u64) < 2 ^ LENGTH(64)" by simp
  then have "unat (c + 1) = unat c + unat (1 :: u64)" by (rule unat_add_lem [THEN iffD1])
  then show ?thesis by simp
qed

text \<open>
  Where the maximum stays within the positive range of \<^verbatim>\<open>int\<close> (at most 31), the
  allocator is first-fit: it returns the lowest free position from 3 on, clears that bit
  alone and syncs the superblock, and with no free position below the maximum it fails
  with \<^verbatim>\<open>-ENOSPC\<close> and changes nothing.
\<close>

lemma int_shl1_bit:
  assumes "i < 31"
  shows "int_to_u64 (int_shl1 i) = 2 ^ i"
  unfolding int_to_u64_def int_shl1_def
  using assms
  by (intro bit_word_eqI) (auto simp: bit_signed_iff bit_exp_iff min_def)

lemma int_shl1_not_bit:
  assumes "i < 31"
  shows "int_to_u64 (NOT (int_shl1 i)) = NOT (2 ^ i)"
  unfolding int_to_u64_def int_shl1_def
  using assms
  by (intro bit_word_eqI) (auto simp: bit_signed_iff bit_not_iff bit_exp_iff min_def)

lemma freeblock_test_bit:
  "i < 31 \<Longrightarrow> (fb AND int_to_u64 (int_shl1 i) \<noteq> 0) = bit fb i"
  by (simp add: int_shl1_bit and_exp_eq_0_iff_not_bit)

lemma freeblock_loop_first_fit:
  "maxobj \<le> 31 \<Longrightarrow> i0 \<le> maxobj \<Longrightarrow>
         i0 \<le> freeblock_loop maxobj fb i0 \<and> freeblock_loop maxobj fb i0 \<le> maxobj
       \<and> (freeblock_loop maxobj fb i0 < maxobj \<longrightarrow> bit fb (freeblock_loop maxobj fb i0))
       \<and> (\<forall>j. i0 \<le> j \<and> j < freeblock_loop maxobj fb i0 \<longrightarrow> \<not> bit fb j)"
proof (induction maxobj fb i0 rule: freeblock_loop.induct)
  case (1 maxobj fb i)
  show ?case
  proof (cases "i < maxobj")
    case False
    then have "freeblock_loop maxobj fb i = i" by (subst freeblock_loop.simps) simp
    with False "1.prems" show ?thesis by auto
  next
    case True
    with "1.prems" have i31: "i < 31" by simp
    show ?thesis
    proof (cases "bit fb i")
      case b: True
      with True i31 have "freeblock_loop maxobj fb i = i"
        by (subst freeblock_loop.simps) (simp add: freeblock_test_bit)
      with True b show ?thesis by auto
    next
      case b: False
      with True i31 have eq: "freeblock_loop maxobj fb i = freeblock_loop maxobj fb (i + 1)"
        by (subst freeblock_loop.simps) (simp add: freeblock_test_bit)
      from i31 b have "\<not> fb AND int_to_u64 (int_shl1 i) \<noteq> 0"
        by (simp only: freeblock_test_bit not_False_eq_True)
      from "1.IH" [OF True this "1.prems"(1)] True
      have ih: "i + 1 \<le> freeblock_loop maxobj fb (i + 1) \<and> freeblock_loop maxobj fb (i + 1) \<le> maxobj
       \<and> (freeblock_loop maxobj fb (i + 1) < maxobj \<longrightarrow> bit fb (freeblock_loop maxobj fb (i + 1)))
       \<and> (\<forall>j. i + 1 \<le> j \<and> j < freeblock_loop maxobj fb (i + 1) \<longrightarrow> \<not> bit fb j)"
        by simp
      have "\<not> bit fb j" if "i \<le> j" and "j < freeblock_loop maxobj fb (i + 1)" for j
      proof (cases "j = i")
        case True with b show ?thesis by simp
      next
        case False with that ih show ?thesis by auto
      qed
      with ih eq show ?thesis by auto
    qed
  qed
qed


lemma freeblock_first_fit_below_31:
  assumes "3 \<le> SIMPLEFS_MAX_FILESYSTEM_OBJECTS_SUPPORTED cfg"
    and "SIMPLEFS_MAX_FILESYSTEM_OBJECTS_SUPPORTED cfg \<le> 31"
    and "readable s SIMPLEFS_SUPERBLOCK_BLOCK_NUMBER"
  shows "((\<forall>j. 3 \<le> j \<and> j < SIMPLEFS_MAX_FILESYSTEM_OBJECTS_SUPPORTED cfg \<longrightarrow> \<not> bit (free_blocks (sb s)) j)
            \<longrightarrow> simplefs_sb_get_a_freeblock cfg s = Ret (Inl ENOSPC, s))
       \<and> (3 \<le> r \<and> r < SIMPLEFS_MAX_FILESYSTEM_OBJECTS_SUPPORTED cfg \<and> bit (free_blocks (sb s)) r
            \<and> (\<forall>j. 3 \<le> j \<and> j < r \<longrightarrow> \<not> bit (free_blocks (sb s)) j)
            \<longrightarrow> simplefs_sb_get_a_freeblock cfg s =
                  Ret (Inr (of_nat r),
                       s\<lparr>sb := (sb s)\<lparr>free_blocks := free_blocks (sb s) AND NOT (2 ^ r)\<rparr>,
                         io_log := io_log s @
                           [Dirty SIMPLEFS_SUPERBLOCK_BLOCK_NUMBER, Sync SIMPLEFS_SUPERBLOCK_BLOCK_NUMBER]\<rparr>))"
proof -
  let ?m = "SIMPLEFS_MAX_FILESYSTEM_OBJECTS_SUPPORTED cfg"
  let ?fb = "free_blocks (sb s)"
  let ?i = "freeblock_loop ?m ?fb 3"
  from freeblock_loop_first_fit [OF assms(2) assms(1), of ?fb]
  have lo: "3 \<le> ?i" and hi: "?i \<le> ?m" and free: "?i < ?m \<Longrightarrow> bit ?fb ?i"
    and busy: "\<And>j. 3 \<le> j \<Longrightarrow> j < ?i \<Longrightarrow> \<not> bit ?fb j"
    by auto
  have none: "simplefs_sb_get_a_freeblock cfg s = Ret (Inl ENOSPC, s)"
    if "\<forall>j. 3 \<le> j \<and> j < ?m \<longrightarrow> \<not> bit ?fb j"
  proof -
    from that lo free have "\<not> ?i < ?m" by blast
    with hi have "?i = ?m" by simp
    then show ?thesis by (simp add: simplefs_sb_get_a_freeblock_def)
  qed
  have some: "simplefs_sb_get_a_freeblock cfg s =
                  Ret (Inr (of_nat r),
                       s\<lparr>sb := (sb s)\<lparr>free_blocks := ?fb AND NOT (2 ^ r)\<rparr>,
                         io_log := io_log s @
                           [Dirty SIMPLEFS_SUPERBLOCK_BLOCK_NUMBER, Sync SIMPLEFS_SUPERBLOCK_BLOCK_NUMBER]\<rparr>)"
    if r: "3 \<le> r" "r < ?m" "bit ?fb r" "\<forall>j. 3 \<le> j \<and> j < r \<longrightarrow> \<not> bit ?fb j"
  proof -
    have "\<not> r < ?i" using busy [of r] r(1,3) by blast
    moreover have "\<not> ?i < r" using r(4) lo free r(2) by (metis less_trans)
    ultimately have eq: "?i = r" by simp
    with r(2) assms(2) have "r < 31" and "?i \<noteq> ?m" by simp_all
    with eq assms(3) show ?thesis
      by (simp add: simplefs_sb_get_a_freeblock_def simplefs_sb_sync_def int_shl1_not_bit Let_def)
  qed
  from none some show ?thesis by blast
qed

lemma freeblock_Inl:
  "simplefs_sb_get_a_freeblock cfg s = Ret (Inl e, s1) \<Longrightarrow> e = ENOSPC \<and> s1 = s"
  by (simp add: simplefs_sb_get_a_freeblock_def Let_def split: if_splits outcome.splits)

lemma freeblock_Inr:
  assumes "simplefs_sb_get_a_freeblock cfg s = Ret (Inr b, s1)"
  shows "b = of_nat (freeblock_loop (SIMPLEFS_MAX_FILESYSTEM_OBJECTS_SUPPORTED cfg) (free_blocks (sb s)) 3)
       \<and> s1 = s\<lparr>sb := (sb s)\<lparr>free_blocks := free_blocks (sb s) AND int_to_u64 (NOT (int_shl1
                  (freeblock_loop (SIMPLEFS_MAX_FILESYSTEM_OBJECTS_SUPPORTED cfg) (free_blocks (sb s)) 3)))\<rparr>,
                io_log := io_log s @
                  [Dirty SIMPLEFS_SUPERBLOCK_BLOCK_NUMBER, Sync SIMPLEFS_SUPERBLOCK_BLOCK_NUMBER]\<rparr>"
  using assms
  by (auto simp: simplefs_sb_get_a_freeblock_def Let_def split: if_splits outcome.splits
      dest!: sb_sync_Ret)

lemma inode_add_Ret:
  assumes "simplefs_inode_add s x = Ret s'"
  shows "unat (inodes_count (sb s)) < length (inode_store s)
       \<and> readable s SIMPLEFS_INODESTORE_BLOCK_NUMBER
       \<and> s' = s\<lparr>inode_store := (inode_store s)[unat (inodes_count (sb s)) := x],
                sb := (sb s)\<lparr>inodes_count := inodes_count (sb s) + 1\<rparr>,
                io_log := io_log s @
                  [Dirty SIMPLEFS_INODESTORE_BLOCK_NUMBER,
                   Dirty SIMPLEFS_SUPERBLOCK_BLOCK_NUMBER, Sync SIMPLEFS_SUPERBLOCK_BLOCK_NUMBER]\<rparr>"
  using assms
  by (auto simp: simplefs_inode_add_def Let_def split: if_splits dest!: sb_sync_Ret)

lemma link_child_Ret:
  assumes "create_link_child cfg s p no name = Ret s'"
  shows "unat (dir_children_count p) < length (dir_data s (data_block_number p))
       \<and> readable s (data_block_number p)
       \<and> length name < SIMPLEFS_FILENAME_MAXLEN cfg
       \<and> s' = s\<lparr>dir_data := (dir_data s)(data_block_number p :=
                    (dir_data s (data_block_number p))
                      [unat (dir_children_count p) := \<lparr>filename = name, d_inode_no = no\<rparr>]),
                io_log := io_log s @ [Dirty (data_block_number p), Sync (data_block_number p)]\<rparr>"
  using assms
  by (auto simp: create_link_child_def Let_def split: if_splits)

lemma create_Inr:
  assumes "simplefs_create_fs_object cfg ok s p name md = Ret (Inr v, p', s')"
  shows "\<exists>s1 s2 s3 b.
           simplefs_sb_get_a_freeblock cfg s = Ret (Inr b, s1)
         \<and> simplefs_inode_add s1
               \<lparr>mode = md,
                inode_no = inodes_count (sb s) + SIMPLEFS_START_INO cfg - SIMPLEFS_RESERVED_INODES cfg + 1,
                data_block_number = b, file_size = 0\<rparr> = Ret s2
         \<and> create_link_child cfg s2 p
               (inodes_count (sb s) + SIMPLEFS_START_INO cfg - SIMPLEFS_RESERVED_INODES cfg + 1) name = Ret s3
         \<and> simplefs_inode_save s3 p' = Ret (Inr (), s')
         \<and> p' = p\<lparr>file_size := dir_children_count p + 1\<rparr>
         \<and> v = \<lparr>i_ino = inodes_count (sb s) + SIMPLEFS_START_INO cfg - SIMPLEFS_RESERVED_INODES cfg + 1,
                i_private = Some
                  \<lparr>mode = md,
                   inode_no = inodes_count (sb s) + SIMPLEFS_START_INO cfg - SIMPLEFS_RESERVED_INODES cfg + 1,
                   data_block_number = b, file_size = 0\<rparr>\<rparr>
         \<and> unat (inodes_count (sb s)) < SIMPLEFS_MAX_FILESYSTEM_OBJECTS_SUPPORTED cfg
         \<and> (S_ISDIR md \<or> S_ISREG md) \<and> ok"
  using assms
  by (auto simp: simplefs_create_fs_object_def simplefs_sb_get_objects_count_def Let_def
      split: if_splits outcome.splits sum.splits prod.splits)

lemma name_fits_field:
  assumes "length name < maxlen"
  shows "(maxlen \<le> length f \<and> take maxlen f = take maxlen name) = False"
proof -
  have False if le: "maxlen \<le> length f" and eq: "take maxlen f = take maxlen name"
  proof -
    from le have 1: "length (take maxlen f) = maxlen" by simp
    from assms have 2: "length (take maxlen name) = length name" by simp
    from eq have "length (take maxlen f) = length (take maxlen name)" by (rule arg_cong)
    with 1 2 assms show False by simp
  qed
  then show ?thesis by blast
qed

lemma lookup_loop_first:
  assumes "k < n" and "k < length xs" and "filename (xs ! k) = name"
    and "\<And>i. i < k \<Longrightarrow> filename (xs ! i) \<noteq> name"
    and "length name < maxlen"
  shows "i0 \<le> k \<Longrightarrow> lookup_loop maxlen xs name n i0 = Ret (Some (d_inode_no (xs ! k)))"
proof (induction "k - i0" arbitrary: i0)
  case 0
  then have "i0 = k" by simp
  with assms(1-3,5) show ?case
    by (subst lookup_loop.simps) simp
next
  case (Suc d)
  then have lt: "i0 < k" and step: "d = k - (i0 + 1)" and le: "i0 + 1 \<le> k" by auto
  from lt assms(4) have "filename (xs ! i0) \<noteq> name" by blast
  moreover from lt assms(1,2) have "i0 < n" and "i0 < length xs" by auto
  ultimately have "lookup_loop maxlen xs name n i0 = lookup_loop maxlen xs name n (i0 + 1)"
    by (subst lookup_loop.simps) (simp add: name_fits_field [OF assms(5)])
  with Suc.hyps(1) [OF step le] show ?case by simp
qed

lemma get_inode_loop_first:
  assumes "k < n" and "k < length xs" and "inode_no (xs ! k) = no"
    and "\<And>i. i < k \<Longrightarrow> inode_no (xs ! i) \<noteq> no"
  shows "i0 \<le> k \<Longrightarrow> get_inode_loop xs no n i0 = Ret (Some (xs ! k))"
proof (induction "k - i0" arbitrary: i0)
  case 0
  then have "i0 = k" by simp
  with assms(1-3) show ?case by (subst get_inode_loop.simps) simp
next
  case (Suc d)
  then have lt: "i0 < k" and step: "d = k - (i0 + 1)" and le: "i0 + 1 \<le> k" by auto
  from lt assms(4) have "inode_no (xs ! i0) \<noteq> no" by blast
  moreover from lt assms(1,2) have "i0 < n" and "i0 < length xs" by auto
  ultimately have "get_inode_loop xs no n i0 = get_inode_loop xs no n (i0 + 1)"
    by (subst get_inode_loop.simps) simp
  with Suc.hyps(1) [OF step le] show ?case by simp
qed

lemma create_Inl_EIO:
  assumes "simplefs_create_fs_object cfg ok s p name md = Ret (Inl EIO, p', s')"
  shows "\<exists>s1 s2 s3 b.
           simplefs_sb_get_a_freeblock cfg s = Ret (Inr b, s1)
         \<and> simplefs_inode_add s1
               \<lparr>mode = md,
                inode_no = inodes_count (sb s) + SIMPLEFS_START_INO cfg - SIMPLEFS_RESERVED_INODES cfg + 1,
                data_block_number = b, file_size = 0\<rparr> = Ret s2
         \<and> create_link_child cfg s2 p
               (inodes_count (sb s) + SIMPLEFS_START_INO cfg - SIMPLEFS_RESERVED_INODES cfg + 1) name = Ret s3
         \<and> simplefs_inode_save s3 p' = Ret (Inl EIO, s')
         \<and> p' = p\<lparr>file_size := dir_children_count p + 1\<rparr>"
  using assms
  by (auto simp: simplefs_create_fs_object_def simplefs_sb_get_objects_count_def Let_def
      split: if_splits outcome.splits sum.splits prod.splits dest: freeblock_Inl)

lemma create_example:
  "simplefs_create_fs_object example_config True example_fs root_inode ''new'' 0x81A4 =
     Ret (Inr \<lparr>i_ino = 10, i_private = Some new_file_inode\<rparr>, root_inode\<lparr>file_size := 2\<rparr>, created_fs)"
  by (simp add: simplefs_create_fs_object_def simplefs_sb_get_objects_count_def
      simplefs_sb_get_a_freeblock_def freeblock_loop.simps int_to_u64_def int_shl1_def
      simplefs_sb_sync_def simplefs_inode_add_def create_link_child_def
      simplefs_inode_save_def simplefs_inode_search_def inode_search_loop.simps
      S_ISDIR_def S_ISREG_def S_IFMT_def S_IFDIR_def S_IFREG_def
      SIMPLEFS_SUPERBLOCK_BLOCK_NUMBER_def SIMPLEFS_INODESTORE_BLOCK_NUMBER_def
      example_config_def example_fs_def root_inode_def file_inode_def new_file_inode_def
      created_fs_def Let_def)

lemma inode_search_loop_first:
  assumes "k \<le> n" and "k < length xs" and "inode_no (xs ! k) = no"
    and "\<And>i. i < k \<Longrightarrow> inode_no (xs ! i) \<noteq> no"
  shows "i0 \<le> k \<Longrightarrow> inode_search_loop xs no n i0 = Ret k"
proof (induction "k - i0" arbitrary: i0)
  case 0
  then have "i0 = k" by simp
  with assms(2,3) show ?case by (subst inode_search_loop.simps) simp
next
  case (Suc d)
  then have lt: "i0 < k" and step: "d = k - (i0 + 1)" and le: "i0 + 1 \<le> k" by auto
  from lt assms(4) have "inode_no (xs ! i0) \<noteq> no" by blast
  moreover from lt assms(1,2) have "i0 < n" and "i0 < length xs" by auto
  ultimately have "inode_search_loop xs no n i0 = inode_search_loop xs no n (i0 + 1)"
    by (subst inode_search_loop.simps) simp
  with Suc.hyps(1) [OF step le] show ?case by simp
qed

lemma inode_save_first:
  assumes "readable s SIMPLEFS_INODESTORE_BLOCK_NUMBER"
    and "k \<le> unat (inodes_count (sb s))" and "k < length (inode_store s)"
    and "inode_no (inode_store s ! k) = inode_no x"
    and "\<And>i. i < k \<Longrightarrow> inode_no (inode_store s ! i) \<noteq> inode_no x"
  shows "simplefs_inode_save s x =
           Ret (Inr (), s\<lparr>inode_store := (inode_store s)[k := x],
                          io_log := io_log s @
                            [Dirty SIMPLEFS_INODESTORE_BLOCK_NUMBER, Sync SIMPLEFS_INODESTORE_BLOCK_NUMBER]\<rparr>)"
proof -
  have "inode_search_loop (inode_store s) (inode_no x) (unat (inodes_count (sb s))) 0 = Ret k"
    using assms(2-5) by (intro inode_search_loop_first) simp_all
  with assms(1,4) show ?thesis
    by (simp add: simplefs_inode_save_def simplefs_inode_search_def)
qed

lemma freeblock_loop_le:
  assumes "k < maxobj" and "fb AND int_to_u64 (int_shl1 k) \<noteq> 0"
  shows "i0 \<le> k \<Longrightarrow> freeblock_loop maxobj fb i0 \<le> k"
proof (induction "k - i0" arbitrary: i0)
  case 0
  then have "i0 = k" by simp
  with assms show ?case by (subst freeblock_loop.simps) simp
next
  case (Suc d)
  then have lt: "i0 < k" and step: "d = k - (i0 + 1)" and le: "i0 + 1 \<le> k" by auto
  from lt assms(1) have m: "i0 < maxobj" by simp
  show ?case
  proof (cases "fb AND int_to_u64 (int_shl1 i0) \<noteq> 0")
    case True
    with m have "freeblock_loop maxobj fb i0 = i0" by (subst freeblock_loop.simps) simp
    with lt show ?thesis by simp
  next
    case False
    with m have "freeblock_loop maxobj fb i0 = freeblock_loop maxobj fb (i0 + 1)"
      by (subst freeblock_loop.simps) simp
    with Suc.hyps(1) [OF step le] show ?thesis by simp
  qed
qed

lemma int_shl1_31: "int_to_u64 (int_shl1 31) = - (2 ^ 31)"
  by (simp add: int_to_u64_def int_shl1_def)

lemma freeblock_test_31:
  assumes "31 \<le> f" and "bit (fb :: u64) f"
  shows "fb AND int_to_u64 (int_shl1 31) \<noteq> 0"
proof
  assume z: "fb AND int_to_u64 (int_shl1 31) = 0"
  from assms(2) have "f < 64" by (auto dest: bit_imp_le_length)
  with assms have "bit (fb AND int_to_u64 (int_shl1 31)) f"
    unfolding int_shl1_31 bit_and_iff bit_minus_exp_iff by simp
  with z show False by simp
qed

lemma freeblock_loop_finds:
  assumes "3 \<le> f" and "f < maxobj" and "bit fb f"
  shows "freeblock_loop maxobj fb 3 < maxobj"
proof (cases "f < 31")
  case True
  with assms(3) have "fb AND int_to_u64 (int_shl1 f) \<noteq> 0" by (simp add: freeblock_test_bit)
  from freeblock_loop_le [OF assms(2) this assms(1)] assms(2) show ?thesis by simp
next
  case False
  then have f: "31 \<le> f" by simp
  with assms(2) have m: "31 < maxobj" by simp
  from freeblock_test_31 [OF f assms(3)] have "fb AND int_to_u64 (int_shl1 31) \<noteq> 0" .
  from freeblock_loop_le [OF m this, of 3] m show ?thesis by simp
qed

lemma distinct_first:
  assumes "distinct (map f (take n xs))" and "j < n" and "j < length xs" and "i < j"
  shows "f (xs ! i) \<noteq> f (xs ! j)"
proof
  assume e: "f (xs ! i) = f (xs ! j)"
  let ?ys = "map f (take n xs)"
  from assms(2-4) have li: "i < length ?ys" and lj: "j < length ?ys" by simp_all
  from assms(2-4) have "?ys ! i = f (xs ! i)" and "?ys ! j = f (xs ! j)" by simp_all
  with e have "?ys ! i = ?ys ! j" by simp
  with nth_eq_iff_index_eq [OF assms(1) li lj] have "i = j" by blast
  with assms(4) show False by simp
qed

text \<open>
  Create returns 0 whenever its inputs allow it: headroom in the object count, a mode
  that denotes a directory or a regular file, an allocator scan that stops below the
  maximum, readable blocks, a free slot in the inode block and in the parent's data
  block, a name that fits the name field, and the parent's record at slot \<open>j\<close> of the
  live inode records, the first with its number. The state it leaves is given in full;
  the parent's record is the one overwritten.
\<close>

lemma create_succeeds:
  assumes headroom: "unat (inodes_count (sb s)) < SIMPLEFS_MAX_FILESYSTEM_OBJECTS_SUPPORTED cfg"
    and md: "S_ISDIR md \<or> S_ISREG md"
    and found: "freeblock_loop (SIMPLEFS_MAX_FILESYSTEM_OBJECTS_SUPPORTED cfg) (free_blocks (sb s)) 3
                  \<noteq> SIMPLEFS_MAX_FILESYSTEM_OBJECTS_SUPPORTED cfg"
    and r0: "readable s SIMPLEFS_SUPERBLOCK_BLOCK_NUMBER"
    and r1: "readable s SIMPLEFS_INODESTORE_BLOCK_NUMBER"
    and rp: "readable s (data_block_number p)"
    and room_i: "unat (inodes_count (sb s)) < length (inode_store s)"
    and room_d: "unat (dir_children_count p) < length (dir_data s (data_block_number p))"
    and b1: "length (inode_store s) < 2 ^ 64"
    and len: "length name < SIMPLEFS_FILENAME_MAXLEN cfg"
    and j: "j < unat (inodes_count (sb s))" "inode_no (inode_store s ! j) = inode_no p"
    and first: "\<And>i. i < j \<Longrightarrow> inode_no (inode_store s ! i) \<noteq> inode_no p"
  shows "simplefs_create_fs_object cfg True s p name md =
     (let no = inodes_count (sb s) + SIMPLEFS_START_INO cfg - SIMPLEFS_RESERVED_INODES cfg + 1;
          i = freeblock_loop (SIMPLEFS_MAX_FILESYSTEM_OBJECTS_SUPPORTED cfg) (free_blocks (sb s)) 3;
          new = \<lparr>mode = md, inode_no = no, data_block_number = of_nat i, file_size = 0\<rparr>;
          p' = p\<lparr>file_size := dir_children_count p + 1\<rparr>;
          pb = data_block_number p
      in Ret (Inr \<lparr>i_ino = no, i_private = Some new\<rparr>, p',
              s\<lparr>sb := (sb s)\<lparr>inodes_count := inodes_count (sb s) + 1,
                               free_blocks := free_blocks (sb s) AND int_to_u64 (NOT (int_shl1 i))\<rparr>,
                 inode_store := ((inode_store s)[unat (inodes_count (sb s)) := new])[j := p'],
                 dir_data := (dir_data s)
                   (pb := (dir_data s pb)
                      [unat (dir_children_count p) := \<lparr>filename = name, d_inode_no = no\<rparr>]),
                 io_log := io_log s @
                   [Dirty SIMPLEFS_SUPERBLOCK_BLOCK_NUMBER, Sync SIMPLEFS_SUPERBLOCK_BLOCK_NUMBER,
                    Dirty SIMPLEFS_INODESTORE_BLOCK_NUMBER,
                    Dirty SIMPLEFS_SUPERBLOCK_BLOCK_NUMBER, Sync SIMPLEFS_SUPERBLOCK_BLOCK_NUMBER,
                    Dirty pb, Sync pb,
                    Dirty SIMPLEFS_INODESTORE_BLOCK_NUMBER, Sync SIMPLEFS_INODESTORE_BLOCK_NUMBER]\<rparr>))"
proof -
  define no where "no = inodes_count (sb s) + SIMPLEFS_START_INO cfg - SIMPLEFS_RESERVED_INODES cfg + 1"
  define i where "i = freeblock_loop (SIMPLEFS_MAX_FILESYSTEM_OBJECTS_SUPPORTED cfg) (free_blocks (sb s)) 3"
  define new where "new = \<lparr>mode = md, inode_no = no, data_block_number = of_nat i, file_size = 0\<rparr>"
  define p' where "p' = p\<lparr>file_size := dir_children_count p + 1\<rparr>"
  define n where "n = unat (inodes_count (sb s))"
  define s1 where "s1 = s\<lparr>sb := (sb s)\<lparr>free_blocks :=
                     free_blocks (sb s) AND int_to_u64 (NOT (int_shl1 i))\<rparr>,
                   io_log := io_log s @
                     [Dirty SIMPLEFS_SUPERBLOCK_BLOCK_NUMBER, Sync SIMPLEFS_SUPERBLOCK_BLOCK_NUMBER]\<rparr>"
  define s2 where "s2 = s1\<lparr>inode_store := (inode_store s1)[n := new],
                sb := (sb s1)\<lparr>inodes_count := inodes_count (sb s1) + 1\<rparr>,
                io_log := io_log s1 @
                  [Dirty SIMPLEFS_INODESTORE_BLOCK_NUMBER,
                   Dirty SIMPLEFS_SUPERBLOCK_BLOCK_NUMBER, Sync SIMPLEFS_SUPERBLOCK_BLOCK_NUMBER]\<rparr>"
  define s3 where "s3 = s2\<lparr>dir_data := (dir_data s2)(data_block_number p :=
                    (dir_data s2 (data_block_number p))
                      [unat (dir_children_count p) := \<lparr>filename = name, d_inode_no = no\<rparr>]),
                io_log := io_log s2 @ [Dirty (data_block_number p), Sync (data_block_number p)]\<rparr>"
  define s4 where "s4 = s3\<lparr>inode_store := (inode_store s3)[j := p'],
                          io_log := io_log s3 @
                            [Dirty SIMPLEFS_INODESTORE_BLOCK_NUMBER, Sync SIMPLEFS_INODESTORE_BLOCK_NUMBER]\<rparr>"
  have fb: "simplefs_sb_get_a_freeblock cfg s = Ret (Inr (of_nat i), s1)"
    using found r0
    by (simp add: simplefs_sb_get_a_freeblock_def simplefs_sb_sync_def Let_def i_def s1_def)
  have add: "simplefs_inode_add s1 new = Ret s2"
    using r0 r1 room_i
    by (simp add: simplefs_inode_add_def simplefs_sb_sync_def Let_def s1_def s2_def n_def)
  have link: "create_link_child cfg s2 p no name = Ret s3"
    using rp room_d len
    by (simp add: create_link_child_def Let_def s1_def s2_def s3_def)
  have store3: "inode_store s3 = (inode_store s)[n := new]"
    and r3: "readable s3 SIMPLEFS_INODESTORE_BLOCK_NUMBER"
    by (simp_all add: s1_def s2_def s3_def r1)
  have save: "simplefs_inode_save s3 p' = Ret (Inr (), s4)"
    unfolding s4_def
  proof (rule inode_save_first [OF r3])
    from j(1) room_i show "j < length (inode_store s3)" by (simp add: store3)
    from j show "inode_no (inode_store s3 ! j) = inode_no p'"
      by (simp add: store3 n_def p'_def)
    show "inode_no (inode_store s3 ! i) \<noteq> inode_no p'" if "i < j" for i
      using that j(1) first [OF that] by (simp add: store3 n_def p'_def)
    have "inodes_count (sb s3) = inodes_count (sb s) + 1"
      by (simp add: s1_def s2_def s3_def)
    moreover have "j \<le> unat (inodes_count (sb s) + 1)"
      using unat_succ [OF room_i b1] j(1) by simp
    ultimately show "j \<le> unat (inodes_count (sb s3))" by simp
  qed
  have "simplefs_create_fs_object cfg True s p name md =
          Ret (Inr \<lparr>i_ino = no, i_private = Some new\<rparr>, p', s4)"
    using headroom md fb add link save
    by (simp add: simplefs_create_fs_object_def simplefs_sb_get_objects_count_def Let_def
        no_def [symmetric] new_def [symmetric] p'_def [symmetric])
  moreover have "s4 = s\<lparr>sb := (sb s)\<lparr>inodes_count := inodes_count (sb s) + 1,
                               free_blocks := free_blocks (sb s) AND int_to_u64 (NOT (int_shl1 i))\<rparr>,
                 inode_store := ((inode_store s)[n := new])[j := p'],
                 dir_data := (dir_data s)
                   (data_block_number p := (dir_data s (data_block_number p))
                      [unat (dir_children_count p) := \<lparr>filename = name, d_inode_no = no\<rparr>]),
                 io_log := io_log s @
                   [Dirty SIMPLEFS_SUPERBLOCK_BLOCK_NUMBER, Sync SIMPLEFS_SUPERBLOCK_BLOCK_NUMBER,
                    Dirty SIMPLEFS_INODESTORE_BLOCK_NUMBER,
                    Dirty SIMPLEFS_SUPERBLOCK_BLOCK_NUMBER, Sync SIMPLEFS_SUPERBLOCK_BLOCK_NUMBER,
                    Dirty (data_block_number p), Sync (data_block_number p),
                    Dirty SIMPLEFS_INODESTORE_BLOCK_NUMBER, Sync SIMPLEFS_INODESTORE_BLOCK_NUMBER]\<rparr>"
    by (simp add: s1_def s2_def s3_def s4_def)
  ultimately show ?thesis
    by (simp add: Let_def no_def new_def p'_def i_def n_def)
qed

text \<open>What a lookup finds after a create that returned 0.\<close>

lemma lookup_after_create:
  assumes c: "simplefs_create_fs_object cfg ok s p name md = Ret (Inr v, p', s')"
    and fresh_name: "name \<notin> set (map filename
          (take (unat (dir_children_count p)) (dir_data s (data_block_number p))))"
    and fresh_no: "inodes_count (sb s) + SIMPLEFS_START_INO cfg - SIMPLEFS_RESERVED_INODES cfg + 1
          \<notin> set (map inode_no (take (unat (inodes_count (sb s))) (inode_store s)))"
    and parent: "inode_no p \<noteq>
          inodes_count (sb s) + SIMPLEFS_START_INO cfg - SIMPLEFS_RESERVED_INODES cfg + 1"
    and b1: "length (inode_store s) < 2 ^ 64"
    and b2: "length (dir_data s (data_block_number p)) < 2 ^ 64"
  shows "simplefs_lookup cfg True s' p' name = Ret (Some v)
       \<and> (\<exists>si. i_private v = Some si \<and> mode si = md)"
proof -
  let ?no = "inodes_count (sb s) + SIMPLEFS_START_INO cfg - SIMPLEFS_RESERVED_INODES cfg + 1"
  let ?n = "unat (inodes_count (sb s))"
  let ?k = "unat (dir_children_count p)"
  let ?pb = "data_block_number p"
  from create_Inr [OF c] obtain s1 s2 s3 b where
    fb: "simplefs_sb_get_a_freeblock cfg s = Ret (Inr b, s1)"
    and add: "simplefs_inode_add s1
        \<lparr>mode = md, inode_no = ?no, data_block_number = b, file_size = 0\<rparr> = Ret s2"
    and link: "create_link_child cfg s2 p ?no name = Ret s3"
    and save: "simplefs_inode_save s3 p' = Ret (Inr (), s')"
    and p': "p' = p\<lparr>file_size := dir_children_count p + 1\<rparr>"
    and v: "v = \<lparr>i_ino = ?no, i_private = Some
                  \<lparr>mode = md, inode_no = ?no, data_block_number = b, file_size = 0\<rparr>\<rparr>"
    by blast
  let ?new = "\<lparr>mode = md, inode_no = ?no, data_block_number = b, file_size = 0\<rparr>"
  from freeblock_Inr [OF fb] have s1: "inode_store s1 = inode_store s"
    "inodes_count (sb s1) = inodes_count (sb s)" "dir_data s1 = dir_data s"
    "readable s1 = readable s"
    by simp_all
  from inode_add_Ret [OF add] s1 have n_lt: "?n < length (inode_store s)"
    and r_store: "readable s SIMPLEFS_INODESTORE_BLOCK_NUMBER"
    and s2: "inode_store s2 = (inode_store s)[?n := ?new]"
      "inodes_count (sb s2) = inodes_count (sb s) + 1" "dir_data s2 = dir_data s"
      "readable s2 = readable s"
    by simp_all
  from link_child_Ret [OF link] s2 have k_lt: "?k < length (dir_data s ?pb)"
    and r_pb: "readable s ?pb"
    and len: "length name < SIMPLEFS_FILENAME_MAXLEN cfg"
    and s3: "inode_store s3 = (inode_store s)[?n := ?new]"
      "inodes_count (sb s3) = inodes_count (sb s) + 1"
      "dir_data s3 ?pb = (dir_data s ?pb)[?k := \<lparr>filename = name, d_inode_no = ?no\<rparr>]"
      "readable s3 = readable s"
    by simp_all
  from inode_save_Inr [OF save] obtain j where
    j_lt: "j < length (inode_store s3)"
    and j_no: "inode_no (inode_store s3 ! j) = inode_no p'"
    and s'_eq: "s' = s3\<lparr>inode_store := (inode_store s3)[j := p'],
                    io_log := io_log s3 @
                      [Dirty SIMPLEFS_INODESTORE_BLOCK_NUMBER, Sync SIMPLEFS_INODESTORE_BLOCK_NUMBER]\<rparr>"
    by blast
  from s'_eq s3 have s': "inode_store s' = ((inode_store s)[?n := ?new])[j := p']"
      "inodes_count (sb s') = inodes_count (sb s) + 1"
      "dir_data s' ?pb = (dir_data s ?pb)[?k := \<lparr>filename = name, d_inode_no = ?no\<rparr>]"
      "readable s' = readable s"
    by simp_all
  have j_ne: "j \<noteq> ?n"
  proof
    assume "j = ?n"
    with j_no s3(1) n_lt have "inode_no p' = ?no" by simp
    with p' parent show False by simp
  qed
  have n': "unat (inodes_count (sb s) + 1) = ?n + 1"
    using n_lt b1 by (rule unat_succ)
  have k': "unat (dir_children_count p + 1) = ?k + 1"
    using k_lt b2 by (rule unat_succ)
  \<comment> \<open>the directory scan stops at the new record\<close>
  let ?recs = "(dir_data s ?pb)[?k := \<lparr>filename = name, d_inode_no = ?no\<rparr>]"
  have "lookup_loop (SIMPLEFS_FILENAME_MAXLEN cfg) ?recs name (?k + 1) 0 = Ret (Some (d_inode_no (?recs ! ?k)))"
  proof (rule lookup_loop_first)
    show "?k < ?k + 1" by simp
    show "?k < length ?recs" using k_lt by simp
    show "filename (?recs ! ?k) = name" using k_lt by simp
    show "filename (?recs ! i) \<noteq> name" if "i < ?k" for i
    proof -
      from that k_lt have "i < length (dir_data s ?pb)" by simp
      from fresh_nth [OF fresh_name that this] that show ?thesis by simp
    qed
    show "length name < SIMPLEFS_FILENAME_MAXLEN cfg" by (rule len)
    show "0 \<le> ?k" by simp
  qed
  with k_lt have scan: "lookup_loop (SIMPLEFS_FILENAME_MAXLEN cfg) ?recs name (?k + 1) 0 = Ret (Some ?no)" by simp
  \<comment> \<open>the inode scan stops at the new inode\<close>
  let ?store = "((inode_store s)[?n := ?new])[j := p']"
  have at_n: "?store ! ?n = ?new" using j_ne n_lt by simp
  have "get_inode_loop ?store ?no (?n + 1) 0 = Ret (Some (?store ! ?n))"
  proof (rule get_inode_loop_first)
    show "?n < ?n + 1" by simp
    show "?n < length ?store" using n_lt by simp
    show "inode_no (?store ! ?n) = ?no" using at_n by simp
    show "inode_no (?store ! i) \<noteq> ?no" if "i < ?n" for i
    proof (cases "i = j")
      case True
      with j_lt s3(1) have "?store ! i = p'" by simp
      with p' parent show ?thesis by simp
    next
      case False
      with that have "?store ! i = inode_store s ! i" by simp
      moreover from that n_lt have "i < length (inode_store s)" by simp
      from fresh_nth [OF fresh_no that this] have "inode_no (inode_store s ! i) \<noteq> ?no" .
      ultimately show ?thesis by simp
    qed
    show "0 \<le> ?n" by simp
  qed
  with at_n have get: "get_inode_loop ?store ?no (?n + 1) 0 = Ret (Some ?new)" by simp
  have "simplefs_get_inode s' ?no = Ret (Some ?new)"
    using get r_store s' n' by (simp add: simplefs_get_inode_def)
  moreover have "data_block_number p' = ?pb" and "dir_children_count p' = dir_children_count p + 1"
    using p' by simp_all
  ultimately have "simplefs_lookup cfg True s' p' name = Ret (Some v)"
    using scan r_pb s' k' v by (simp add: simplefs_lookup_def)
  with v show ?thesis by simp
qed

text \<open>
  The order of the steps of create, read from its results. With no headroom it fails
  with \<^verbatim>\<open>-ENOSPC\<close> whatever the mode is; with headroom and a mode that is neither a
  directory nor a regular file it fails with \<^verbatim>\<open>-EINVAL\<close>; when the allocation fails it
  fails with \<^verbatim>\<open>-ENOSPC\<close>; in all three cases nothing has changed. When it returns 0
  the log of buffer operations is that of the allocation, the inode append, the
  directory record and the save of the parent, in this order. When the save fails with
  \<^verbatim>\<open>-EIO\<close>, the effects of the earlier steps stay.
\<close>

lemma create_step_order:
  "(SIMPLEFS_MAX_FILESYSTEM_OBJECTS_SUPPORTED cfg \<le> unat (inodes_count (sb s)) \<longrightarrow>
      simplefs_create_fs_object cfg ok s p name md = Ret (Inl ENOSPC, p, s))
 \<and> (unat (inodes_count (sb s)) < SIMPLEFS_MAX_FILESYSTEM_OBJECTS_SUPPORTED cfg
      \<and> \<not> S_ISDIR md \<and> \<not> S_ISREG md \<longrightarrow>
      simplefs_create_fs_object cfg ok s p name md = Ret (Inl EINVAL, p, s))
 \<and> (unat (inodes_count (sb s)) < SIMPLEFS_MAX_FILESYSTEM_OBJECTS_SUPPORTED cfg
      \<and> (S_ISDIR md \<or> S_ISREG md) \<and> ok
      \<and> simplefs_sb_get_a_freeblock cfg s = Ret (Inl e, s1) \<longrightarrow>
      simplefs_create_fs_object cfg ok s p name md = Ret (Inl ENOSPC, p, s))
 \<and> (let no = inodes_count (sb s) + SIMPLEFS_START_INO cfg - SIMPLEFS_RESERVED_INODES cfg + 1;
         i = freeblock_loop (SIMPLEFS_MAX_FILESYSTEM_OBJECTS_SUPPORTED cfg) (free_blocks (sb s)) 3;
         new = \<lparr>mode = md, inode_no = no, data_block_number = of_nat i, file_size = 0\<rparr>;
         n = unat (inodes_count (sb s));
         k = unat (dir_children_count p);
         pb = data_block_number p;
         alloc = [Dirty SIMPLEFS_SUPERBLOCK_BLOCK_NUMBER, Sync SIMPLEFS_SUPERBLOCK_BLOCK_NUMBER];
         add = [Dirty SIMPLEFS_INODESTORE_BLOCK_NUMBER,
                Dirty SIMPLEFS_SUPERBLOCK_BLOCK_NUMBER, Sync SIMPLEFS_SUPERBLOCK_BLOCK_NUMBER];
         link = [Dirty pb, Sync pb];
         save = [Dirty SIMPLEFS_INODESTORE_BLOCK_NUMBER, Sync SIMPLEFS_INODESTORE_BLOCK_NUMBER];
         linked = s\<lparr>sb := (sb s)\<lparr>inodes_count := inodes_count (sb s) + 1,
                                  free_blocks := free_blocks (sb s) AND int_to_u64 (NOT (int_shl1 i))\<rparr>,
                    inode_store := (inode_store s)[n := new],
                    dir_data := (dir_data s)(pb := (dir_data s pb)[k := \<lparr>filename = name, d_inode_no = no\<rparr>]),
                    io_log := io_log s @ alloc @ add @ link\<rparr>
     in (simplefs_create_fs_object cfg ok s p name md = Ret (Inr v, p', s') \<longrightarrow>
           p' = p\<lparr>file_size := dir_children_count p + 1\<rparr>
         \<and> v = \<lparr>i_ino = no, i_private = Some new\<rparr>
         \<and> (\<exists>j. j < length (inode_store s)
                \<and> s' = linked\<lparr>inode_store := (inode_store linked)[j := p'],
                              io_log := io_log linked @ save\<rparr>))
      \<and> (simplefs_create_fs_object cfg ok s p name md = Ret (Inl EIO, p', s') \<longrightarrow>
           p' = p\<lparr>file_size := dir_children_count p + 1\<rparr> \<and> s' = linked))"
proof -
  have 1: "SIMPLEFS_MAX_FILESYSTEM_OBJECTS_SUPPORTED cfg \<le> unat (inodes_count (sb s)) \<Longrightarrow>
      simplefs_create_fs_object cfg ok s p name md = Ret (Inl ENOSPC, p, s)"
    by (simp add: simplefs_create_fs_object_def simplefs_sb_get_objects_count_def)
  have 2: "unat (inodes_count (sb s)) < SIMPLEFS_MAX_FILESYSTEM_OBJECTS_SUPPORTED cfg
      \<Longrightarrow> \<not> S_ISDIR md \<Longrightarrow> \<not> S_ISREG md \<Longrightarrow>
      simplefs_create_fs_object cfg ok s p name md = Ret (Inl EINVAL, p, s)"
    by (simp add: simplefs_create_fs_object_def simplefs_sb_get_objects_count_def)
  have 3: "unat (inodes_count (sb s)) < SIMPLEFS_MAX_FILESYSTEM_OBJECTS_SUPPORTED cfg
      \<Longrightarrow> S_ISDIR md \<or> S_ISREG md \<Longrightarrow> ok
      \<Longrightarrow> simplefs_sb_get_a_freeblock cfg s = Ret (Inl e, s1) \<Longrightarrow>
      simplefs_create_fs_object cfg ok s p name md = Ret (Inl ENOSPC, p, s)"
    by (auto simp: simplefs_create_fs_object_def simplefs_sb_get_objects_count_def Let_def
        dest: freeblock_Inl)
  let ?no = "inodes_count (sb s) + SIMPLEFS_START_INO cfg - SIMPLEFS_RESERVED_INODES cfg + 1"
  let ?i = "freeblock_loop (SIMPLEFS_MAX_FILESYSTEM_OBJECTS_SUPPORTED cfg) (free_blocks (sb s)) 3"
  let ?new = "\<lparr>mode = md, inode_no = ?no, data_block_number = of_nat ?i, file_size = 0\<rparr>"
  let ?n = "unat (inodes_count (sb s))"
  let ?k = "unat (dir_children_count p)"
  let ?pb = "data_block_number p"
  let ?linked = "s\<lparr>sb := (sb s)\<lparr>inodes_count := inodes_count (sb s) + 1,
                                  free_blocks := free_blocks (sb s) AND int_to_u64 (NOT (int_shl1 ?i))\<rparr>,
                    inode_store := (inode_store s)[?n := ?new],
                    dir_data := (dir_data s)(?pb := (dir_data s ?pb)[?k := \<lparr>filename = name, d_inode_no = ?no\<rparr>]),
                    io_log := io_log s @ [Dirty SIMPLEFS_SUPERBLOCK_BLOCK_NUMBER, Sync SIMPLEFS_SUPERBLOCK_BLOCK_NUMBER]
                       @ [Dirty SIMPLEFS_INODESTORE_BLOCK_NUMBER,
                          Dirty SIMPLEFS_SUPERBLOCK_BLOCK_NUMBER, Sync SIMPLEFS_SUPERBLOCK_BLOCK_NUMBER]
                       @ [Dirty ?pb, Sync ?pb]\<rparr>"
  have steps: "s3 = ?linked \<and> b = of_nat ?i"
    if fb: "simplefs_sb_get_a_freeblock cfg s = Ret (Inr b, s1)"
      and add: "simplefs_inode_add s1
        \<lparr>mode = md, inode_no = ?no, data_block_number = b, file_size = 0\<rparr> = Ret s2"
      and link: "create_link_child cfg s2 p ?no name = Ret s3"
    for s1 s2 s3 b
  proof -
    from freeblock_Inr [OF fb] have b: "b = of_nat ?i"
      and s1: "s1 = s\<lparr>sb := (sb s)\<lparr>free_blocks := free_blocks (sb s) AND int_to_u64 (NOT (int_shl1 ?i))\<rparr>,
                io_log := io_log s @
                  [Dirty SIMPLEFS_SUPERBLOCK_BLOCK_NUMBER, Sync SIMPLEFS_SUPERBLOCK_BLOCK_NUMBER]\<rparr>"
      by simp_all
    from inode_add_Ret [OF add] have
      s2: "s2 = s1\<lparr>inode_store := (inode_store s1)[unat (inodes_count (sb s1)) :=
                      \<lparr>mode = md, inode_no = ?no, data_block_number = b, file_size = 0\<rparr>],
                sb := (sb s1)\<lparr>inodes_count := inodes_count (sb s1) + 1\<rparr>,
                io_log := io_log s1 @
                  [Dirty SIMPLEFS_INODESTORE_BLOCK_NUMBER,
                   Dirty SIMPLEFS_SUPERBLOCK_BLOCK_NUMBER, Sync SIMPLEFS_SUPERBLOCK_BLOCK_NUMBER]\<rparr>"
      by simp
    from link_child_Ret [OF link] have
      s3: "s3 = s2\<lparr>dir_data := (dir_data s2)(?pb :=
                    (dir_data s2 ?pb)[?k := \<lparr>filename = name, d_inode_no = ?no\<rparr>]),
                io_log := io_log s2 @ [Dirty ?pb, Sync ?pb]\<rparr>"
      by simp
    show ?thesis unfolding s3 s2 s1 b by simp
  qed
  have 4: "p' = p\<lparr>file_size := dir_children_count p + 1\<rparr>
         \<and> v = \<lparr>i_ino = ?no, i_private = Some ?new\<rparr>
         \<and> (\<exists>j. j < length (inode_store s)
                \<and> s' = ?linked\<lparr>inode_store := (inode_store ?linked)[j := p'],
                              io_log := io_log ?linked @
                   [Dirty SIMPLEFS_INODESTORE_BLOCK_NUMBER, Sync SIMPLEFS_INODESTORE_BLOCK_NUMBER]\<rparr>)"
    if c: "simplefs_create_fs_object cfg ok s p name md = Ret (Inr v, p', s')"
  proof -
    from create_Inr [OF c] obtain s1 s2 s3 b where
      fb: "simplefs_sb_get_a_freeblock cfg s = Ret (Inr b, s1)"
      and add: "simplefs_inode_add s1
          \<lparr>mode = md, inode_no = ?no, data_block_number = b, file_size = 0\<rparr> = Ret s2"
      and link: "create_link_child cfg s2 p ?no name = Ret s3"
      and save: "simplefs_inode_save s3 p' = Ret (Inr (), s')"
      and p': "p' = p\<lparr>file_size := dir_children_count p + 1\<rparr>"
      and v: "v = \<lparr>i_ino = ?no, i_private = Some
                    \<lparr>mode = md, inode_no = ?no, data_block_number = b, file_size = 0\<rparr>\<rparr>"
      by blast
    from steps [OF fb add link] have s3: "s3 = ?linked" and b: "b = of_nat ?i" by simp_all
    from inode_save_Inr [OF save] obtain j where
      "j < length (inode_store s3)"
      and "s' = s3\<lparr>inode_store := (inode_store s3)[j := p'],
                    io_log := io_log s3 @
                      [Dirty SIMPLEFS_INODESTORE_BLOCK_NUMBER, Sync SIMPLEFS_INODESTORE_BLOCK_NUMBER]\<rparr>"
      by blast
    then have "j < length (inode_store s)"
      and "s' = ?linked\<lparr>inode_store := (inode_store ?linked)[j := p'],
                    io_log := io_log ?linked @
                      [Dirty SIMPLEFS_INODESTORE_BLOCK_NUMBER, Sync SIMPLEFS_INODESTORE_BLOCK_NUMBER]\<rparr>"
      unfolding s3 by simp_all
    with p' v b show ?thesis by blast
  qed
  have 5: "p' = p\<lparr>file_size := dir_children_count p + 1\<rparr> \<and> s' = ?linked"
    if c: "simplefs_create_fs_object cfg ok s p name md = Ret (Inl EIO, p', s')"
  proof -
    from create_Inl_EIO [OF c] obtain s1 s2 s3 b where
      fb: "simplefs_sb_get_a_freeblock cfg s = Ret (Inr b, s1)"
      and add: "simplefs_inode_add s1
          \<lparr>mode = md, inode_no = ?no, data_block_number = b, file_size = 0\<rparr> = Ret s2"
      and link: "create_link_child cfg s2 p ?no name = Ret s3"
      and save: "simplefs_inode_save s3 p' = Ret (Inl EIO, s')"
      and p': "p' = p\<lparr>file_size := dir_children_count p + 1\<rparr>"
      by blast
    from steps [OF fb add link] have s3: "s3 = ?linked" by simp
    from inode_save_Inl [OF save] have "s' = s3" by simp
    with s3 p' show ?thesis by simp
  qed
  from 1 2 3 4 5 show ?thesis unfolding Let_def by blast
qed

section \<open>Creating and looking up\<close>

text \<open>
  Claim C1. For every valid parent directory, name and mode, with the mode denoting a
  directory or a regular file and space remaining, create returns 0 and a lookup of the
  name in the parent then returns the object that create made; the mode stored in it
  is the mode given to create. Space remaining: the object count is below the maximum,
  some bit of the bitmask from position 3 up to the maximum is set, and the inode block
  and the parent's data block have a free slot. Valid: the blocks can be read, the name
  fits the name field and is not among the parent's live records, the live inode
  records have distinct numbers, the parent's number is among them, and the number that
  create computes is not. A block holds fewer than \<open>2 ^ 64\<close> records, and the kernel
  hands out the in-memory inodes that create and lookup ask for.
\<close>

theorem create_then_lookup_mode:
  assumes headroom: "unat (inodes_count (sb s)) < SIMPLEFS_MAX_FILESYSTEM_OBJECTS_SUPPORTED cfg"
    and md: "S_ISDIR md \<or> S_ISREG md"
    and space: "3 \<le> f" "f < SIMPLEFS_MAX_FILESYSTEM_OBJECTS_SUPPORTED cfg"
      "bit (free_blocks (sb s)) f"
    and r0: "readable s SIMPLEFS_SUPERBLOCK_BLOCK_NUMBER"
    and r1: "readable s SIMPLEFS_INODESTORE_BLOCK_NUMBER"
    and rp: "readable s (data_block_number p)"
    and room_i: "unat (inodes_count (sb s)) < length (inode_store s)"
    and room_d: "unat (dir_children_count p) < length (dir_data s (data_block_number p))"
    and b1: "length (inode_store s) < 2 ^ 64"
    and b2: "length (dir_data s (data_block_number p)) < 2 ^ 64"
    and len: "length name < SIMPLEFS_FILENAME_MAXLEN cfg"
    and fresh_name: "name \<notin> set (map filename
          (take (unat (dir_children_count p)) (dir_data s (data_block_number p))))"
    and uniq: "distinct (map inode_no (take (unat (inodes_count (sb s))) (inode_store s)))"
    and parent: "j < unat (inodes_count (sb s))" "inode_no (inode_store s ! j) = inode_no p"
    and fresh_no: "inodes_count (sb s) + SIMPLEFS_START_INO cfg - SIMPLEFS_RESERVED_INODES cfg + 1
          \<notin> set (map inode_no (take (unat (inodes_count (sb s))) (inode_store s)))"
  shows "\<exists>v p' s'.
           simplefs_create_fs_object cfg True s p name md = Ret (Inr v, p', s')
         \<and> simplefs_lookup cfg True s' p' name = Ret (Some v)
         \<and> (\<exists>si. i_private v = Some si \<and> mode si = md)"
proof -
  let ?n = "unat (inodes_count (sb s))"
  from parent room_i have jl: "j < length (inode_store s)" by simp
  have jno: "inode_no (inode_store s ! j) = inode_no p" by (rule parent(2))
  have first: "inode_no (inode_store s ! i) \<noteq> inode_no p" if "i < j" for i
    using distinct_first [OF uniq parent(1) jl that] jno by simp
  from freeblock_loop_finds [OF space]
  have found: "freeblock_loop (SIMPLEFS_MAX_FILESYSTEM_OBJECTS_SUPPORTED cfg) (free_blocks (sb s)) 3
                  \<noteq> SIMPLEFS_MAX_FILESYSTEM_OBJECTS_SUPPORTED cfg"
    by simp
  from create_succeeds [OF headroom md found r0 r1 rp room_i room_d b1 len parent(1) jno first]
  obtain v p' s' where c: "simplefs_create_fs_object cfg True s p name md = Ret (Inr v, p', s')"
    unfolding Let_def by blast
  from fresh_nth [OF fresh_no parent(1) jl] jno
  have pn: "inode_no p \<noteq>
          inodes_count (sb s) + SIMPLEFS_START_INO cfg - SIMPLEFS_RESERVED_INODES cfg + 1"
    by simp
  from lookup_after_create [OF c fresh_name fresh_no pn b1 b2] c show ?thesis by blast
qed

theorem create_then_lookup_mode_witness:
  "unat (inodes_count (sb example_fs)) < SIMPLEFS_MAX_FILESYSTEM_OBJECTS_SUPPORTED example_config
   \<and> S_ISREG 0x81A4
   \<and> bit (free_blocks (sb example_fs)) 4
   \<and> length ''new'' < SIMPLEFS_FILENAME_MAXLEN example_config
   \<and> inode_no (inode_store example_fs ! 0) = inode_no root_inode
   \<and> simplefs_create_fs_object example_config True example_fs root_inode ''new'' 0x81A4 =
       Ret (Inr \<lparr>i_ino = 10, i_private = Some new_file_inode\<rparr>, root_inode\<lparr>file_size := 2\<rparr>, created_fs)
   \<and> simplefs_lookup example_config True created_fs (root_inode\<lparr>file_size := 2\<rparr>) ''new'' =
       Ret (Some \<lparr>i_ino = 10, i_private = Some new_file_inode\<rparr>)
   \<and> mode new_file_inode = 0x81A4"
proof -
  have headroom: "unat (inodes_count (sb example_fs))
      < SIMPLEFS_MAX_FILESYSTEM_OBJECTS_SUPPORTED example_config"
    by (simp add: example_fs_def example_config_def)
  have reg: "S_ISREG 0x81A4"
    by (simp add: S_ISREG_def S_IFMT_def S_IFREG_def)
  then have md: "S_ISDIR 0x81A4 \<or> S_ISREG 0x81A4" by simp
  have space: "3 \<le> (4::nat)" "4 < SIMPLEFS_MAX_FILESYSTEM_OBJECTS_SUPPORTED example_config"
    "bit (free_blocks (sb example_fs)) 4"
    by (simp_all add: example_fs_def example_config_def bit_iff_odd)
  have r0: "readable example_fs SIMPLEFS_SUPERBLOCK_BLOCK_NUMBER"
    and r1: "readable example_fs SIMPLEFS_INODESTORE_BLOCK_NUMBER"
    and rp: "readable example_fs (data_block_number root_inode)"
    by (simp_all add: example_fs_def)
  have room_i: "unat (inodes_count (sb example_fs)) < length (inode_store example_fs)"
    and room_d: "unat (dir_children_count root_inode)
          < length (dir_data example_fs (data_block_number root_inode))"
    and b1: "length (inode_store example_fs) < 2 ^ 64"
    and b2: "length (dir_data example_fs (data_block_number root_inode)) < 2 ^ 64"
    by (simp_all add: example_fs_def root_inode_def)
  have len: "length ''new'' < SIMPLEFS_FILENAME_MAXLEN example_config"
    by (simp add: example_config_def)
  have fresh_name: "''new'' \<notin> set (map filename
          (take (unat (dir_children_count root_inode))
             (dir_data example_fs (data_block_number root_inode))))"
    by (simp add: example_fs_def root_inode_def)
  have uniq: "distinct (map inode_no
          (take (unat (inodes_count (sb example_fs))) (inode_store example_fs)))"
    by (simp add: example_fs_def root_inode_def file_inode_def)
  have parent: "0 < unat (inodes_count (sb example_fs))"
    "inode_no (inode_store example_fs ! 0) = inode_no root_inode"
    by (simp_all add: example_fs_def)
  have fresh_no: "inodes_count (sb example_fs) + SIMPLEFS_START_INO example_config
          - SIMPLEFS_RESERVED_INODES example_config + 1
          \<notin> set (map inode_no (take (unat (inodes_count (sb example_fs))) (inode_store example_fs)))"
    by (simp add: example_fs_def example_config_def root_inode_def file_inode_def)
  from create_then_lookup_mode [OF headroom md space r0 r1 rp room_i room_d b1 b2 len
      fresh_name uniq parent fresh_no]
  obtain v p' s' where
    "simplefs_create_fs_object example_config True example_fs root_inode ''new'' 0x81A4 =
       Ret (Inr v, p', s')"
    and "simplefs_lookup example_config True s' p' ''new'' = Ret (Some v)"
    by blast
  with create_example
  have "simplefs_lookup example_config True created_fs (root_inode\<lparr>file_size := 2\<rparr>) ''new'' =
       Ret (Some \<lparr>i_ino = 10, i_private = Some new_file_inode\<rparr>)"
    by simp
  with headroom reg space(3) len parent(2) create_example show ?thesis
    by (simp add: new_file_inode_def)
qed


section \<open>Reading\<close>

text \<open>
  Claim C7. For every object and every offset with \<open>offset \<ge> file_size\<close>, a read returns
  zero bytes and never an error, for any length, and leaves the file position unchanged
  (and the filesystem state with it).
\<close>

theorem read_beyond_size:
  "file_size inode \<le> ppos \<Longrightarrow> simplefs_read copy_ok s inode len ppos = Ret (Inr [], ppos, s)"
  by (simp add: simplefs_read_def)

theorem read_beyond_size_witness:
  "file_size file_inode \<le> 5 \<and> simplefs_read False example_fs file_inode 3 5 = Ret (Inr [], 5, example_fs)"
proof -
  have h: "file_size file_inode \<le> 5" by (simp add: file_inode_def)
  from h read_beyond_size [OF h] show ?thesis by simp
qed

text \<open>
  Claim C10. Every read that returns leaves the filesystem state unchanged: the data
  blocks, the inode store, the superblock and the log of buffer operations are the same
  before and after. The file position advances by exactly the number of bytes returned,
  and stays where it was when the read returns an error.
\<close>

theorem read_leaves_state_unchanged:
  assumes "simplefs_read copy_ok s inode len ppos = Ret (r, ppos', s')"
  shows "s' = s \<and> (case r of Inl e \<Rightarrow> ppos' = ppos
                            | Inr bs \<Rightarrow> ppos' = ppos + of_nat (length bs))"
  using assms
  by (auto simp: simplefs_read_def Let_def int_to_u64_nonneg split: if_splits)

theorem read_leaves_state_unchanged_witness:
  "simplefs_read True example_fs file_inode 3 0 = Ret (Inr [104, 101, 108], 3, example_fs)
   \<and> (3 :: u64) = 0 + of_nat (length [104, 101, 108 :: byte])"
proof -
  have h: "simplefs_read True example_fs file_inode 3 0 = Ret (Inr [104, 101, 108], 3, example_fs)"
    by (simp add: simplefs_read_def example_fs_def file_inode_def int_to_u64_def)
  from read_leaves_state_unchanged [OF h] h show ?thesis by simp
qed

text \<open>What a read returns is a prefix of the data block; the offset plays no part in it.\<close>

lemma read_returns_block_prefix:
  assumes "simplefs_read copy_ok s inode len ppos = Ret (Inr bs, ppos', s')"
    and "ppos < file_size inode" and "readable s (data_block_number inode)"
  shows "bs = take (nat (sint (ucast (min (file_size inode) len) :: s32)))
                (file_data s (data_block_number inode))"
  using assms
  by (auto simp: simplefs_read_def Let_def split: if_splits)

text \<open>
  Claim C2 says that a read with \<open>offset < file_size\<close> returns \<open>min file_size length\<close> bytes
  taken from the data block starting at position \<open>offset\<close>. The source copies from the
  start of the block whatever the offset is: on the five-byte file, a read of 3 bytes at
  offset 2 returns bytes 0 to 2 of the block, not bytes 2 to 4, and moves the file
  position to 5.
\<close>

theorem read_ignores_offset:
  "simplefs_read True example_fs file_inode 3 2 = Ret (Inr [104, 101, 108], 5, example_fs)
   \<and> take 3 (drop 2 (file_data example_fs (data_block_number file_inode))) = [108, 108, 111]"
  by (simp add: simplefs_read_def example_fs_def file_inode_def int_to_u64_def)

section \<open>Writing\<close>

text \<open>
  Claim C3. After every successful write (the data block was read and the call returned
  the byte count) the object's \<open>file_size\<close> is \<open>offset + length bytes\<close>, whatever it was
  before, and the inode store holds the inode with that size. In particular a second
  write at the same offset leaves \<open>file_size\<close> at the second write's end offset.
\<close>

theorem write_sets_file_size:
  assumes "simplefs_write copy_ok s sfs_inode buf ppos = Ret (Inr n, ppos', inode', s')"
    and "readable s (data_block_number sfs_inode)"
  shows "file_size inode' = ppos + of_nat (length buf)
       \<and> (\<exists>i. i < length (inode_store s') \<and> inode_store s' ! i = inode')
       \<and> (\<forall>c buf2 n2 p2 inode2 s2.
            simplefs_write c s' inode' buf2 ppos = Ret (Inr n2, p2, inode2, s2) \<longrightarrow>
            file_size inode2 = ppos + of_nat (length buf2))"
proof -
  from write_Inr [OF assms]
  have 1: "inode' = sfs_inode\<lparr>file_size := ppos + of_nat (length buf)\<rparr>"
    and 2: "readable s' = readable s"
    and 3: "\<exists>i. i < length (inode_store s') \<and> inode_store s' ! i = inode'"
    by blast+
  from 1 2 assms(2) have r: "readable s' (data_block_number inode')" by simp
  have "file_size inode2 = ppos + of_nat (length buf2)"
    if "simplefs_write c s' inode' buf2 ppos = Ret (Inr n2, p2, inode2, s2)"
    for c buf2 n2 p2 inode2 s2
    using write_Inr [OF that r] by simp
  with 1 3 show ?thesis by simp
qed

theorem write_sets_file_size_witness:
  "simplefs_write True example_fs file_inode [1, 2, 3] 0 =
     Ret (Inr 3, 3, file_inode\<lparr>file_size := 3\<rparr>,
          example_fs\<lparr>inode_store := [root_inode, file_inode\<lparr>file_size := 3\<rparr>, blank_inode, blank_inode],
                     file_data := (file_data example_fs)(3 := [1, 2, 3, 108, 111, 0, 0, 0]),
                     io_log := [Dirty 3, Sync 3, Dirty 1, Sync 1]\<rparr>)
   \<and> readable example_fs (data_block_number file_inode)
   \<and> file_size (file_inode\<lparr>file_size := 3\<rparr>) = 0 + of_nat (length [1, 2, 3 :: byte])
   \<and> file_size (file_inode\<lparr>file_size := 3\<rparr>) < file_size file_inode"
proof -
  have h: "simplefs_write True example_fs file_inode [1, 2, 3] 0 =
     Ret (Inr 3, 3, file_inode\<lparr>file_size := 3\<rparr>,
          example_fs\<lparr>inode_store := [root_inode, file_inode\<lparr>file_size := 3\<rparr>, blank_inode, blank_inode],
                     file_data := (file_data example_fs)(3 := [1, 2, 3, 108, 111, 0, 0, 0]),
                     io_log := [Dirty 3, Sync 3, Dirty 1, Sync 1]\<rparr>)"
    by (simp add: simplefs_write_def simplefs_inode_save_def simplefs_inode_search_def
        inode_search_loop.simps example_fs_def file_inode_def root_inode_def
        SIMPLEFS_INODESTORE_BLOCK_NUMBER_def Let_def)
  have r: "readable example_fs (data_block_number file_inode)"
    by (simp add: example_fs_def)
  from write_sets_file_size [OF h r] h r show ?thesis
    by (simp add: file_inode_def)
qed

section \<open>The inode store\<close>

text \<open>
  Claim C8 says that the find operation never examines a record at index
  \<open>inodes_count\<close> or beyond and returns not-found when the first \<open>inodes_count\<close> records do
  not match. \<^verbatim>\<open>simplefs_get_inode\<close> does so; \<^verbatim>\<open>simplefs_inode_search\<close> compares the record
  at index \<open>inodes_count\<close> after its loop and returns it on a match. With an object count
  of 1 and object number 2 in slot 1, the search returns slot 1.
\<close>

theorem inode_search_reads_past_count:
  "unat (inodes_count (sb stale_fs)) = 1
   \<and> simplefs_inode_search stale_fs (inode_store stale_fs) file_inode = Ret (Some 1)
   \<and> simplefs_get_inode stale_fs (inode_no file_inode) = Ret None"
  by (simp add: stale_fs_def example_fs_def simplefs_inode_search_def simplefs_get_inode_def
      inode_search_loop.simps get_inode_loop.simps root_inode_def file_inode_def
      SIMPLEFS_INODESTORE_BLOCK_NUMBER_def)

text \<open>
  Claim C9 says that saving an inode whose object number is not among the live records
  fails with stale-reference (\<^verbatim>\<open>-EIO\<close>) and leaves the inode store unchanged. Through the
  search above, \<^verbatim>\<open>simplefs_inode_save\<close> overwrites slot \<open>inodes_count\<close> and returns 0 when
  that slot holds the number.
\<close>

theorem inode_save_overwrites_past_count:
  "inode_no file_inode \<notin>
     set (map inode_no (take (unat (inodes_count (sb stale_fs))) (inode_store stale_fs)))
   \<and> simplefs_inode_save stale_fs (file_inode\<lparr>file_size := 7\<rparr>) =
       Ret (Inr (),
            stale_fs\<lparr>inode_store := [root_inode, file_inode\<lparr>file_size := 7\<rparr>, blank_inode, blank_inode],
                     io_log := [Dirty 1, Sync 1]\<rparr>)"
  by (simp add: stale_fs_def example_fs_def simplefs_inode_save_def simplefs_inode_search_def
      inode_search_loop.simps root_inode_def file_inode_def
      SIMPLEFS_INODESTORE_BLOCK_NUMBER_def)

section \<open>Block allocation\<close>

text \<open>
  Claim C5 says that the allocator returns the lowest free bit position of the supported
  range and clears exactly that bit. The source tests and clears with the \<^verbatim>\<open>int\<close>
  expression \<^verbatim>\<open>1 << i\<close>. With a 64-object maximum and bits 31 to 63 free, it returns
  block 31 and clears bits 31 to 63, where clearing bit 31 alone leaves bits 32 to 63.
\<close>

theorem freeblock_clears_upper_half:
  "simplefs_sb_get_a_freeblock example_config half_used_fs =
     Ret (Inr 31,
          half_used_fs\<lparr>sb := (sb half_used_fs)\<lparr>free_blocks := 0\<rparr>, io_log := [Dirty 0, Sync 0]\<rparr>)
   \<and> free_blocks (sb half_used_fs) AND NOT (push_bit 31 1) = 0xFFFFFFFF00000000"
  by (simp add: simplefs_sb_get_a_freeblock_def half_used_fs_def example_fs_def example_config_def
      freeblock_loop.simps int_to_u64_def int_shl1_def simplefs_sb_sync_def
      SIMPLEFS_SUPERBLOCK_BLOCK_NUMBER_def Let_def)

section \<open>Mounting\<close>

text \<open>
  Claim C6, as amended. Mounting fails with \<^verbatim>\<open>-EPERM\<close> when the stored magic number is not
  the expected constant, and with the same \<^verbatim>\<open>-EPERM\<close> when the magic matches and the stored
  block size is not the compiled block size. When both match, the kernel allocates the
  root inode and dentry and the inode store can be scanned, it returns the root inode:
  its number is the root directory's and its private data is what the inode store holds
  for that number.
\<close>

theorem fill_super_results:
  assumes "readable s SIMPLEFS_SUPERBLOCK_BLOCK_NUMBER"
  shows "(magic (sb s) \<noteq> SIMPLEFS_MAGIC cfg \<longrightarrow>
            simplefs_fill_super cfg new_inode_ok d_make_root_ok s = Ret (Inl EPERM))
       \<and> (magic (sb s) = SIMPLEFS_MAGIC cfg
            \<and> block_size (sb s) \<noteq> SIMPLEFS_DEFAULT_BLOCK_SIZE cfg \<longrightarrow>
            simplefs_fill_super cfg new_inode_ok d_make_root_ok s = Ret (Inl EPERM))
       \<and> (magic (sb s) = SIMPLEFS_MAGIC cfg
            \<and> block_size (sb s) = SIMPLEFS_DEFAULT_BLOCK_SIZE cfg
            \<and> new_inode_ok \<and> d_make_root_ok
            \<and> simplefs_get_inode s (SIMPLEFS_ROOTDIR_INODE_NUMBER cfg) = Ret r \<longrightarrow>
            simplefs_fill_super cfg new_inode_ok d_make_root_ok s =
              Ret (Inr \<lparr>i_ino = SIMPLEFS_ROOTDIR_INODE_NUMBER cfg, i_private = r\<rparr>))"
  using assms by (simp add: simplefs_fill_super_def)

theorem fill_super_results_witness:
  "readable example_fs SIMPLEFS_SUPERBLOCK_BLOCK_NUMBER
   \<and> magic (sb example_fs) = SIMPLEFS_MAGIC example_config
   \<and> block_size (sb example_fs) = SIMPLEFS_DEFAULT_BLOCK_SIZE example_config
   \<and> simplefs_get_inode example_fs (SIMPLEFS_ROOTDIR_INODE_NUMBER example_config) = Ret (Some root_inode)
   \<and> simplefs_fill_super example_config True True example_fs =
       Ret (Inr \<lparr>i_ino = 1, i_private = Some root_inode\<rparr>)
   \<and> magic (sb bad_magic_fs) \<noteq> SIMPLEFS_MAGIC example_config
   \<and> simplefs_fill_super example_config True True bad_magic_fs = Ret (Inl EPERM)"
proof -
  have a: "readable example_fs SIMPLEFS_SUPERBLOCK_BLOCK_NUMBER"
    by (simp add: example_fs_def)
  have b: "readable bad_magic_fs SIMPLEFS_SUPERBLOCK_BLOCK_NUMBER"
    by (simp add: bad_magic_fs_def example_fs_def)
  have g: "simplefs_get_inode example_fs (SIMPLEFS_ROOTDIR_INODE_NUMBER example_config) =
             Ret (Some root_inode)"
    by (simp add: simplefs_get_inode_def get_inode_loop.simps example_fs_def example_config_def
        root_inode_def SIMPLEFS_INODESTORE_BLOCK_NUMBER_def)
  have m: "magic (sb example_fs) = SIMPLEFS_MAGIC example_config"
    and k: "block_size (sb example_fs) = SIMPLEFS_DEFAULT_BLOCK_SIZE example_config"
    and n: "magic (sb bad_magic_fs) \<noteq> SIMPLEFS_MAGIC example_config"
    by (simp_all add: example_fs_def bad_magic_fs_def example_config_def)
  from fill_super_results [OF a, of example_config True True "Some root_inode"] m k g
  have 1: "simplefs_fill_super example_config True True example_fs =
             Ret (Inr \<lparr>i_ino = 1, i_private = Some root_inode\<rparr>)"
    by (simp add: example_config_def)
  from fill_super_results [OF b, of example_config True True None] n
  have 2: "simplefs_fill_super example_config True True bad_magic_fs = Ret (Inl EPERM)"
    by simp
  from a m k g 1 n 2 show ?thesis by simp
qed

text \<open>
  Claim C6 as stated asks for two distinct errors. An image with a wrong magic number and
  an image with the right magic number and a wrong block size get the same result.
\<close>

theorem mount_errors_coincide:
  "magic (sb bad_magic_fs) \<noteq> SIMPLEFS_MAGIC example_config
   \<and> magic (sb bad_block_size_fs) = SIMPLEFS_MAGIC example_config
   \<and> block_size (sb bad_block_size_fs) \<noteq> SIMPLEFS_DEFAULT_BLOCK_SIZE example_config
   \<and> simplefs_fill_super example_config True True bad_magic_fs =
       simplefs_fill_super example_config True True bad_block_size_fs"
  by (simp add: simplefs_fill_super_def bad_magic_fs_def bad_block_size_fs_def example_fs_def
      example_config_def SIMPLEFS_SUPERBLOCK_BLOCK_NUMBER_def)

end
